theory Spec2Isabelle
  imports Complex_Main "HOL-Library.AList" "HOL-Library.Sublist"
begin

section \<open>KeplerAI: the inference predictor of \<^verbatim>\<open>backend/app.py\<close>\<close>

text \<open>
  A Python float is modelled by the real number it denotes; infinities and \<^verbatim>\<open>NaN\<close>
  are not values of the model, and a missing value is \<open>None\<close>. Comparisons of floats are
  exact and are those of the reals. The sum, difference and product of two floats are
  rounded by the machine, so wherever the source adds, subtracts or multiplies floats the
  model applies an operation that it takes as a parameter (\<open>fadd\<close> for the addition of
  \<^verbatim>\<open>app.py\<close>); a property proved for every such operation holds for that of the
  machine. Python exceptions are values of the type \<open>error\<close>; a function that can raise
  returns \<open>error + 'a\<close> with \<open>Inl\<close> for the exception. The message of a
  \<^verbatim>\<open>ValueError\<close> is kept, since the source tells its two uses apart only by the text.
\<close>

datatype error =
    ValueError string
  | KeyError
  | TypeError
  | AttributeError
  | IndexError
  | NotFittedError

subsection \<open>The addition of float64\<close>

text \<open>
  The addition of two floats as the machine performs it, for reference: the exact sum
  rounded to the nearest number with a significand of 53 bits, a tie going to the even
  significand. The range of the exponent is not bounded here, so the definition gives the
  float64 sum wherever that sum is finite (a sum of two floats that is subnormal is
  exact). It is an instance of the parameter \<open>fadd\<close>.
\<close>

definition round_half_even :: "real \<Rightarrow> int" where
  "round_half_even x =
     (let f = \<lfloor>x\<rfloor>; d = x - of_int f
      in if d < 1/2 then f else if d > 1/2 then f + 1 else if even f then f else f + 1)"

definition float64_round :: "real \<Rightarrow> real" where
  "float64_round x =
     (if x = 0 then 0
      else
        (let e = \<lfloor>log 2 \<bar>x\<bar>\<rfloor> - 52
         in of_int (round_half_even (x / 2 powr of_int e)) * 2 powr of_int e))"

definition float64_add :: "real \<Rightarrow> real \<Rightarrow> real" where
  "float64_add a b = float64_round (a + b)"

subsection \<open>The persisted artifacts\<close>

text \<open>
  The classifier, the scaler and the label encoder are objects of scikit-learn that the
  source unpickles and calls; their code is not part of the repository. They are modelled
  by what the source uses of them, on the single row that \<^verbatim>\<open>predict\<close> passes:
  \<^verbatim>\<open>model.predict\<close> gives the encoded label of the row, \<^verbatim>\<open>model.predict_proba\<close> the
  list \<^verbatim>\<open>probabilities[0]\<close>, \<^verbatim>\<open>scaler.transform\<close> the scaled row, and the label encoder
  is its list \<^verbatim>\<open>classes_\<close>.
\<close>

record classifier =
  clf_predict :: "real list \<Rightarrow> nat"
  clf_predict_proba :: "real list \<Rightarrow> real list"

record feature_scaler =
  transform :: "real list \<Rightarrow> real list"

record label_encoding =
  classes :: "string list"

text \<open>The decimal digits of a number, as \<^verbatim>\<open>str\<close> prints it.\<close>

fun decimal :: "nat \<Rightarrow> string" where
  "decimal n =
     (if n < 10 then [char_of (48 + n)]
      else decimal (n div 10) @ [char_of (48 + n mod 10)])"

declare decimal.simps [simp del]

text \<open>
  \<^verbatim>\<open>LabelEncoder.inverse_transform\<close> decodes a label by its position in \<^verbatim>\<open>classes_\<close> and
  raises \<^verbatim>\<open>ValueError\<close> for a code that is not a position of the list; the message ends
  with the array of the unseen codes, here the one code in brackets.
\<close>

definition inverse_transform :: "label_encoding \<Rightarrow> nat \<Rightarrow> error + string" where
  "inverse_transform le y =
     (if y < length (classes le) then Inr (classes le ! y)
      else Inl (ValueError (''y contains previously unseen labels: ['' @ decimal y @ '']'')))"

subsection \<open>ExoplanetPredictor: state and loading\<close>

record ExoplanetPredictor =
  model :: "classifier option"
  scaler :: "feature_scaler option"
  label_encoder :: "label_encoding option"
  feature_columns :: "string list option"

text \<open>
  A file of the model directory is absent, present but unreadable (loading it raises), or
  holds a value. \<^verbatim>\<open>feature_names.txt\<close> holds its lines.
\<close>

datatype 'a artifact_file = Absent | Corrupt | Stored 'a

record model_dir =
  exoplanet_classifier_pkl :: "classifier artifact_file"
  feature_scaler_pkl :: "feature_scaler artifact_file"
  label_encoder_pkl :: "label_encoding artifact_file"
  feature_names_txt :: "string list artifact_file"

definition exists_file :: "'a artifact_file \<Rightarrow> bool" where
  "exists_file f = (f \<noteq> Absent)"

text \<open>
  \<^verbatim>\<open>str.strip()\<close>. A character of the model is a code point below 256; those that
  \<^verbatim>\<open>str.isspace\<close> holds of are 9 to 13, 28 to 32, 133 (U+0085) and 160 (U+00A0).
\<close>

definition is_space :: "char \<Rightarrow> bool" where
  "is_space c =
     (let n = of_char c :: nat
      in (9 \<le> n \<and> n \<le> 13) \<or> (28 \<le> n \<and> n \<le> 32) \<or> n = 133 \<or> n = 160)"

definition strip :: "string \<Rightarrow> string" where
  "strip s = rev (dropWhile is_space (rev (dropWhile is_space s)))"

text \<open>
  \<^verbatim>\<open>load_model\<close>: when all four paths exist the artifacts are loaded in the order
  classifier, scaler, label encoder, feature names; an exception of a load is caught and
  logged, which leaves the fields assigned so far. When a path is missing nothing is loaded.
\<close>

definition load_model :: "model_dir \<Rightarrow> ExoplanetPredictor \<Rightarrow> ExoplanetPredictor" where
  "load_model d self =
     (if exists_file (exoplanet_classifier_pkl d) \<and> exists_file (feature_scaler_pkl d)
         \<and> exists_file (label_encoder_pkl d) \<and> exists_file (feature_names_txt d)
      then
        (case exoplanet_classifier_pkl d of
           Stored m \<Rightarrow>
             (let self1 = self\<lparr>model := Some m\<rparr> in
              case feature_scaler_pkl d of
                Stored s \<Rightarrow>
                  (let self2 = self1\<lparr>scaler := Some s\<rparr> in
                   case label_encoder_pkl d of
                     Stored e \<Rightarrow>
                       (let self3 = self2\<lparr>label_encoder := Some e\<rparr> in
                        case feature_names_txt d of
                          Stored ls \<Rightarrow> self3\<lparr>feature_columns := Some (map strip ls)\<rparr>
                        | _ \<Rightarrow> self3)
                   | _ \<Rightarrow> self2)
              | _ \<Rightarrow> self1)
         | _ \<Rightarrow> self)
      else self)"

text \<open>\<^verbatim>\<open>__init__\<close>: the four fields are \<^verbatim>\<open>None\<close>, then \<^verbatim>\<open>load_model\<close> runs.\<close>

definition init_predictor :: "model_dir \<Rightarrow> ExoplanetPredictor" where
  "init_predictor d =
     load_model d \<lparr>model = None, scaler = None, label_encoder = None, feature_columns = None\<rparr>"

subsection \<open>ExoplanetPredictor.predict\<close>

definition optional_params :: "string list" where
  "optional_params = [''koi_impact'', ''koi_score'', ''koi_slogg'']"

definition model_not_loaded :: error where
  "model_not_loaded = ValueError ''Model not loaded. Please train the model first.''"

definition missing_feature :: "string \<Rightarrow> error" where
  "missing_feature col =
     ValueError (''Required feature '' @ [CHR 0x27] @ col @ [CHR 0x27] @ '' is missing'')"

text \<open>
  The input is the \<^verbatim>\<open>dict\<close> branch of the source: a map from feature names to numbers,
  which \<^verbatim>\<open>pd.DataFrame([features])\<close> turns into a frame of one row whose columns are the
  keys. The first loop walks \<^verbatim>\<open>self.feature_columns\<close>: a missing optional column is
  added with the value 0.0, a missing column of any other name raises.
\<close>

fun fill_missing :: "string list \<Rightarrow> (string \<rightharpoonup> real) \<Rightarrow> error + (string \<rightharpoonup> real)" where
  "fill_missing [] features_df = Inr features_df"
| "fill_missing (col # cols) features_df =
     (if features_df col = None then
        (if col \<in> set optional_params then fill_missing cols (features_df(col \<mapsto> 0))
         else Inl (missing_feature col))
      else fill_missing cols features_df)"

text \<open>\<^verbatim>\<open>features_df[self.feature_columns]\<close>: the columns in the given order, \<^verbatim>\<open>KeyError\<close> for
  a name that is not a column.\<close>

fun select_columns :: "string list \<Rightarrow> (string \<rightharpoonup> real) \<Rightarrow> error + real list" where
  "select_columns [] features_df = Inr []"
| "select_columns (col # cols) features_df =
     (case features_df col of
        None \<Rightarrow> Inl KeyError
      | Some v \<Rightarrow>
          (case select_columns cols features_df of
             Inl e \<Rightarrow> Inl e
           | Inr vs \<Rightarrow> Inr (v # vs)))"

text \<open>
  The loop over \<^verbatim>\<open>enumerate(self.label_encoder.classes_)\<close> that fills the dictionary
  \<^verbatim>\<open>confidence_scores\<close>. A dictionary is an association list in insertion order;
  \<^const>\<open>AList.update\<close> overwrites the value of a key that is present and appends a new
  key, as assignment to a \<^verbatim>\<open>dict\<close> does. \<^verbatim>\<open>probabilities[0][i]\<close> raises \<^verbatim>\<open>IndexError\<close>
  beyond the end of the row.
\<close>

fun collect_scores ::
  "string list \<Rightarrow> nat \<Rightarrow> real list \<Rightarrow> (string \<times> real) list \<Rightarrow> error + (string \<times> real) list" where
  "collect_scores [] i probabilities confidence_scores = Inr confidence_scores"
| "collect_scores (class_name # rest) i probabilities confidence_scores =
     (if i < length probabilities
      then collect_scores rest (Suc i) probabilities
             (AList.update class_name (probabilities ! i) confidence_scores)
      else Inl IndexError)"

text \<open>
  The merging loop over \<^verbatim>\<open>confidence_scores.items()\<close>: the state is the dictionary
  \<^verbatim>\<open>merged_confidence_scores\<close> and the running sum \<^verbatim>\<open>confirmed_candidate_score\<close>, which
  \<^verbatim>\<open>+=\<close> updates by the float addition \<open>fadd\<close>.
\<close>

fun merge_scores ::
  "(real \<Rightarrow> real \<Rightarrow> real) \<Rightarrow> (string \<times> real) list \<Rightarrow>
   (string \<times> real) list \<times> real \<Rightarrow> (string \<times> real) list \<times> real" where
  "merge_scores fadd [] acc = acc"
| "merge_scores fadd ((class_name, score) # rest)
       (merged_confidence_scores, confirmed_candidate_score) =
     (if class_name \<in> set [''CONFIRMED'', ''CANDIDATE'']
      then merge_scores fadd rest
             (merged_confidence_scores, fadd confirmed_candidate_score score)
      else merge_scores fadd rest
             (AList.update class_name score merged_confidence_scores, confirmed_candidate_score))"

text \<open>\<^verbatim>\<open>dict.get(key, default)\<close>.\<close>

definition dict_get :: "(string \<times> real) list \<Rightarrow> string \<Rightarrow> real \<Rightarrow> real" where
  "dict_get d k dflt = (case map_of d k of None \<Rightarrow> dflt | Some v \<Rightarrow> v)"

record PredictionResult =
  prediction :: string
  confidence_scores :: "(string \<times> real) list"
  max_confidence :: real
  features_used :: "string list"

text \<open>Merging and deciding, lines 111 to 141 of the source.\<close>

definition merge_and_decide ::
  "(real \<Rightarrow> real \<Rightarrow> real) \<Rightarrow> (string \<times> real) list \<Rightarrow> string list \<Rightarrow> PredictionResult" where
  "merge_and_decide fadd scores cols =
     (let (merged0, confirmed_candidate_score) = merge_scores fadd scores ([], 0);
          merged_confidence_scores =
            AList.update ''CONFIRMED/CANDIDATE'' confirmed_candidate_score merged0;
          false_positive_score = dict_get merged_confidence_scores ''FALSE POSITIVE'' 0
      in if confirmed_candidate_score > false_positive_score
         then \<lparr>prediction = ''CONFIRMED/CANDIDATE'',
               confidence_scores = merged_confidence_scores,
               max_confidence = confirmed_candidate_score,
               features_used = cols\<rparr>
         else \<lparr>prediction = ''FALSE POSITIVE'',
               confidence_scores = merged_confidence_scores,
               max_confidence = false_positive_score,
               features_used = cols\<rparr>)"

text \<open>
  \<^verbatim>\<open>predict\<close>. The \<^verbatim>\<open>try\<close> block logs an exception and raises it again, so every error
  below reaches the caller unchanged. Iterating over \<^verbatim>\<open>self.feature_columns\<close> when it is
  \<^verbatim>\<open>None\<close> is a \<^verbatim>\<open>TypeError\<close>; a method call on a scaler or label encoder that is
  \<^verbatim>\<open>None\<close> is an \<^verbatim>\<open>AttributeError\<close>.
\<close>

definition predict ::
  "(real \<Rightarrow> real \<Rightarrow> real) \<Rightarrow> ExoplanetPredictor \<Rightarrow> (string \<rightharpoonup> real) \<Rightarrow>
   error + PredictionResult" where
  "predict fadd self features =
     (case model self of
        None \<Rightarrow> Inl model_not_loaded
      | Some m \<Rightarrow>
     (case feature_columns self of
        None \<Rightarrow> Inl TypeError
      | Some cols \<Rightarrow>
     (case fill_missing cols features of
        Inl e \<Rightarrow> Inl e
      | Inr features_df \<Rightarrow>
     (case select_columns cols features_df of
        Inl e \<Rightarrow> Inl e
      | Inr features_selected \<Rightarrow>
     (case scaler self of
        None \<Rightarrow> Inl AttributeError
      | Some sc \<Rightarrow>
     (let features_scaled = transform sc features_selected;
          encoded = clf_predict m features_scaled;
          probabilities = clf_predict_proba m features_scaled
      in case label_encoder self of
        None \<Rightarrow> Inl AttributeError
      | Some le \<Rightarrow>
     (case inverse_transform le encoded of
        Inl e \<Rightarrow> Inl e
      | Inr predicted_label \<Rightarrow>
     (case collect_scores (classes le) 0 probabilities [] of
        Inl e \<Rightarrow> Inl e
      | Inr scores \<Rightarrow> Inr (merge_and_decide fadd scores cols)))))))))"

subsection \<open>Notions used to state the properties of the predictor\<close>

text \<open>
  The row that a valid input yields: the values of the persisted columns in their order,
  0 for a column that the input does not have.
\<close>

definition feature_row :: "string list \<Rightarrow> (string \<rightharpoonup> real) \<Rightarrow> real list" where
  "feature_row cols features = map (\<lambda>c. case features c of None \<Rightarrow> 0 | Some v \<Rightarrow> v) cols"

text \<open>
  The first persisted column, in the persisted order, that the input lacks and that is not
  one of the three optional names.
\<close>

definition first_missing :: "string list \<Rightarrow> (string \<rightharpoonup> real) \<Rightarrow> string option" where
  "first_missing cols features = find (\<lambda>c. features c = None \<and> c \<notin> set optional_params) cols"

text \<open>
  The two steps of validation together: the completing loop, then the selection of the
  persisted columns.
\<close>

definition validated :: "string list \<Rightarrow> (string \<rightharpoonup> real) \<Rightarrow> error + real list" where
  "validated cols features =
     (case fill_missing cols features of Inl e \<Rightarrow> Inl e | Inr df \<Rightarrow> select_columns cols df)"

text \<open>
  The probability that the classifier's row gives to a class: the entry of
  \<^verbatim>\<open>probabilities[0]\<close> at the position of the class in \<^verbatim>\<open>classes_\<close>, and 0 for a name that
  is not a class.
\<close>

definition class_probability :: "label_encoding \<Rightarrow> real list \<Rightarrow> string \<Rightarrow> real" where
  "class_probability le probabilities class_name =
     dict_get (zip (classes le) probabilities) class_name 0"

section \<open>KeplerAI: the training pipeline of \<^verbatim>\<open>backend/train_model.py\<close>\<close>

subsection \<open>Tables\<close>

text \<open>
  A \<^verbatim>\<open>DataFrame\<close> of the KOI table is its list of column names and its rows. A row holds
  its numeric cells by column name, \<open>None\<close> for a missing value (\<^verbatim>\<open>NaN\<close>), and the cell of
  the target column, a string or missing. The feature columns are taken to be numeric.
\<close>

record koi_row =
  num :: "string \<rightharpoonup> real"
  koi_disposition :: "string option"

record data_frame =
  columns :: "string list"
  rows :: "koi_row list"

text \<open>
  The operations of pandas that the source calls. \<^verbatim>\<open>Series.quantile\<close> and
  \<^verbatim>\<open>Series.median\<close> skip missing values and give \<^verbatim>\<open>NaN\<close> when none is left. The
  quantile that pandas documents interpolates linearly between the two nearest ranks of
  the sorted values; \<open>linear_quantile\<close> is that value in exact arithmetic, which is the
  float that pandas returns whenever no step of the interpolation rounds.
\<close>

definition column_values :: "string \<Rightarrow> koi_row list \<Rightarrow> real list" where
  "column_values col rs = List.map_filter (\<lambda>r. num r col) rs"

definition linear_quantile :: "real \<Rightarrow> real list \<Rightarrow> real option" where
  "linear_quantile q xs =
     (if xs = [] then None
      else
        (let s = sort xs;
             pos = q * real (length s - 1);
             lo = nat \<lfloor>pos\<rfloor>;
             hi = min (lo + 1) (length s - 1)
         in Some (s ! lo + (s ! hi - s ! lo) * (pos - real lo))))"

definition median :: "real list \<Rightarrow> real option" where
  "median xs =
     (if xs = [] then None
      else
        (let s = sort xs; n = length s
         in if odd n then Some (s ! (n div 2))
            else Some ((s ! (n div 2 - 1) + s ! (n div 2)) / 2)))"

text \<open>\<^verbatim>\<open>Series.fillna(v)\<close> on one column; filling with \<^verbatim>\<open>NaN\<close> changes nothing.\<close>

definition fillna :: "string \<Rightarrow> real option \<Rightarrow> koi_row list \<Rightarrow> koi_row list" where
  "fillna col v rs =
     (case v of
        None \<Rightarrow> rs
      | Some m \<Rightarrow> map (\<lambda>r. if num r col = None then r\<lparr>num := (num r)(col \<mapsto> m)\<rparr> else r) rs)"

text \<open>\<^verbatim>\<open>DataFrame.dropna(subset=cols)\<close>: the rows with a value in every column of the subset.\<close>

definition dropna :: "string list \<Rightarrow> koi_row list \<Rightarrow> koi_row list" where
  "dropna cols rs = filter (\<lambda>r. \<forall>c\<in>set cols. num r c \<noteq> None) rs"

text \<open>
  The outlier loop computes with floats: \<^verbatim>\<open>Series.quantile\<close> inside pandas, and the
  subtraction, the multiplication and the addition of lines 79 to 81. These operations
  round, so the model takes them as parameters: whatever they are, the loop applies them
  as written.
\<close>

record numerics =
  np_add :: "real \<Rightarrow> real \<Rightarrow> real"
  np_sub :: "real \<Rightarrow> real \<Rightarrow> real"
  np_mul :: "real \<Rightarrow> real \<Rightarrow> real"
  series_quantile :: "real \<Rightarrow> real list \<Rightarrow> real option"

text \<open>
  Exact arithmetic with the documented quantile. It agrees with the machine on a table
  whose values, quartiles and bounds are all binary fractions that float64 represents.
\<close>

definition exact_numerics :: numerics where
  "exact_numerics =
     \<lparr>np_add = (+), np_sub = (-), np_mul = (*), series_quantile = linear_quantile\<rparr>"

subsection \<open>ExoplanetClassifier\<close>

text \<open>
  The scaler and the label encoder of a new \<^verbatim>\<open>ExoplanetClassifier\<close> exist but are not
  fitted; \<open>None\<close> stands for that state, in which scikit-learn raises
  \<^verbatim>\<open>NotFittedError\<close>. The field names carry a prefix, the predictor of \<^verbatim>\<open>app.py\<close> having
  the same ones.
\<close>

record ExoplanetClassifier =
  trainer_model :: "classifier option"
  trainer_scaler :: "feature_scaler option"
  trainer_label_encoder :: "label_encoding option"
  trainer_feature_columns :: "string list"
  target_column :: string

definition koi_feature_columns :: "string list" where
  "koi_feature_columns =
     [''koi_period'', ''koi_duration'', ''koi_depth'', ''koi_prad'', ''koi_teq'',
      ''koi_insol'', ''koi_model_snr'', ''koi_steff'', ''koi_srad'',
      ''koi_impact'', ''koi_score'', ''koi_slogg'']"

text \<open>\<^verbatim>\<open>__init__\<close>.\<close>

definition new_classifier :: ExoplanetClassifier where
  "new_classifier =
     \<lparr>trainer_model = None, trainer_scaler = None, trainer_label_encoder = None,
      trainer_feature_columns = koi_feature_columns, target_column = ''koi_disposition''\<rparr>"

subsection \<open>load_and_preprocess_data\<close>

definition valid_dispositions :: "string list" where
  "valid_dispositions = [''CONFIRMED'', ''CANDIDATE'', ''FALSE POSITIVE'']"

text \<open>Lines 50 to 53: the rows whose disposition is one of the three valid ones.\<close>

definition filter_dispositions :: "data_frame \<Rightarrow> data_frame" where
  "filter_dispositions df =
     df\<lparr>rows := filter (\<lambda>r. case koi_disposition r of
                               None \<Rightarrow> False
                             | Some d \<Rightarrow> d \<in> set valid_dispositions) (rows df)\<rparr>"

text \<open>Lines 55 to 57: the frame with exactly the columns to use.\<close>

definition narrow_columns :: "string list \<Rightarrow> string \<Rightarrow> data_frame \<Rightarrow> data_frame" where
  "narrow_columns feature_cols target df =
     \<lparr>columns = feature_cols @ [target],
      rows = map (\<lambda>r. r\<lparr>num := num r |` set feature_cols\<rparr>) (rows df)\<rparr>"

text \<open>
  Lines 66 to 69: the loop over the optional columns. The median of a column is taken over
  the frame as it is when the loop reaches the column.
\<close>

fun fill_optional :: "string list \<Rightarrow> data_frame \<Rightarrow> data_frame" where
  "fill_optional [] df = df"
| "fill_optional (col # cols) df =
     fill_optional cols
       (if col \<in> set (columns df)
        then df\<lparr>rows := fillna col (median (column_values col (rows df))) (rows df)\<rparr>
        else df)"

text \<open>Lines 59 to 71: rows without a required value are dropped, then the optional columns
  are filled.\<close>

definition handle_missing_values :: "string list \<Rightarrow> data_frame \<Rightarrow> data_frame" where
  "handle_missing_values feature_cols df =
     (let required_cols = take 9 feature_cols;
          df1 = df\<lparr>rows := dropna required_cols (rows df)\<rparr>;
          optional_cols = drop 9 feature_cols
      in fill_optional optional_cols df1)"

text \<open>
  Lines 75 to 82: one turn of the outlier loop, and the loop. A comparison with \<^verbatim>\<open>NaN\<close> is
  false, so a row without a value in the column is dropped, and every row is when the
  quartiles are \<^verbatim>\<open>NaN\<close>.
\<close>

definition outlier_step :: "numerics \<Rightarrow> string \<Rightarrow> data_frame \<Rightarrow> data_frame" where
  "outlier_step env col df =
     (if col \<in> set (columns df) then
        (case (series_quantile env (1/4) (column_values col (rows df)),
               series_quantile env (3/4) (column_values col (rows df))) of
           (Some Q1, Some Q3) \<Rightarrow>
             (let IQR = np_sub env Q3 Q1;
                  lower_bound = np_sub env Q1 (np_mul env 1.5 IQR);
                  upper_bound = np_add env Q3 (np_mul env 1.5 IQR)
              in df\<lparr>rows := filter (\<lambda>r. case num r col of
                                          None \<Rightarrow> False
                                        | Some v \<Rightarrow> v \<ge> lower_bound \<and> v \<le> upper_bound)
                                  (rows df)\<rparr>)
         | _ \<Rightarrow> df\<lparr>rows := []\<rparr>)
      else df)"

fun remove_outliers :: "numerics \<Rightarrow> string list \<Rightarrow> data_frame \<Rightarrow> data_frame" where
  "remove_outliers env [] df = df"
| "remove_outliers env (col # cols) df = remove_outliers env cols (outlier_step env col df)"

text \<open>
  \<^verbatim>\<open>load_and_preprocess_data\<close>, from the frame that \<^verbatim>\<open>pd.read_csv\<close> returns. Indexing by a
  column that the frame does not have raises \<^verbatim>\<open>KeyError\<close>.
\<close>

definition load_and_preprocess_data ::
  "numerics \<Rightarrow> ExoplanetClassifier \<Rightarrow> data_frame \<Rightarrow> error + data_frame" where
  "load_and_preprocess_data env self df =
     (if target_column self \<notin> set (columns df) then Inl KeyError
      else
        (let df1 = filter_dispositions df;
             columns_to_use = trainer_feature_columns self @ [target_column self]
         in if \<not> set columns_to_use \<subseteq> set (columns df1) then Inl KeyError
            else
              (let df2 = narrow_columns (trainer_feature_columns self) (target_column self) df1;
                   df3 = handle_missing_values (trainer_feature_columns self) df2
               in Inr (remove_outliers env (trainer_feature_columns self) df3))))"

subsection \<open>ExoplanetClassifier.predict\<close>

record ClassifierResult =
  raw_prediction :: string
  raw_confidence_scores :: "(string \<times> real) list"
  raw_max_confidence :: real

text \<open>
  \<^verbatim>\<open>predict\<close> of the training module, on a \<^verbatim>\<open>dict\<close>. The columns are selected before the
  scaler is called; \<^verbatim>\<open>max\<close> of an empty row raises \<^verbatim>\<open>ValueError\<close>.
\<close>

definition classifier_predict ::
  "ExoplanetClassifier \<Rightarrow> (string \<rightharpoonup> real) \<Rightarrow> error + ClassifierResult" where
  "classifier_predict self features =
     (case trainer_model self of
        None \<Rightarrow> Inl (ValueError ''Model not trained yet!'')
      | Some m \<Rightarrow>
     (case select_columns (trainer_feature_columns self) features of
        Inl e \<Rightarrow> Inl e
      | Inr features_selected \<Rightarrow>
     (case trainer_scaler self of
        None \<Rightarrow> Inl NotFittedError
      | Some sc \<Rightarrow>
     (let features_scaled = transform sc features_selected;
          encoded = clf_predict m features_scaled;
          probabilities = clf_predict_proba m features_scaled
      in case trainer_label_encoder self of
        None \<Rightarrow> Inl NotFittedError
      | Some le \<Rightarrow>
     (case inverse_transform le encoded of
        Inl e \<Rightarrow> Inl e
      | Inr predicted_label \<Rightarrow>
     (case collect_scores (classes le) 0 probabilities [] of
        Inl e \<Rightarrow> Inl e
      | Inr scores \<Rightarrow>
     (case probabilities of
        [] \<Rightarrow> Inl (ValueError ''max() arg is an empty sequence'')
      | p # ps \<Rightarrow>
          Inr \<lparr>raw_prediction = predicted_label,
               raw_confidence_scores = scores,
               raw_max_confidence = fold max ps p\<rparr>)))))))"

subsection \<open>Notions used to state the properties of the training pipeline\<close>

text \<open>
  The range \<open>[Q1 - 1.5 IQR, Q3 + 1.5 IQR]\<close> of a column over given rows, computed with
  the operations of the environment, and the rows whose value in the column lies in it.
\<close>

definition iqr_range :: "numerics \<Rightarrow> string \<Rightarrow> koi_row list \<Rightarrow> (real \<times> real) option" where
  "iqr_range env col rs =
     (case (series_quantile env (1/4) (column_values col rs),
            series_quantile env (3/4) (column_values col rs)) of
        (Some Q1, Some Q3) \<Rightarrow>
          Some (np_sub env Q1 (np_mul env 1.5 (np_sub env Q3 Q1)),
                np_add env Q3 (np_mul env 1.5 (np_sub env Q3 Q1)))
      | _ \<Rightarrow> None)"

definition in_iqr_range :: "numerics \<Rightarrow> string \<Rightarrow> koi_row list \<Rightarrow> koi_row \<Rightarrow> bool" where
  "in_iqr_range env col rs r =
     (case (iqr_range env col rs, num r col) of
        (Some (lo, hi), Some v) \<Rightarrow> lo \<le> v \<and> v \<le> hi
      | _ \<Rightarrow> False)"

text \<open>
  The wording of the specification for the outlier removal: \<open>survivors env cols rs k\<close> are
  the rows left after the filters of the first \<open>k\<close> columns; the filter of the next
  column takes its quartiles over them and drops from them.
\<close>

fun survivors :: "numerics \<Rightarrow> string list \<Rightarrow> koi_row list \<Rightarrow> nat \<Rightarrow> koi_row list" where
  "survivors env cols rs 0 = rs"
| "survivors env cols rs (Suc k) =
     filter (in_iqr_range env (cols ! k) (survivors env cols rs k)) (survivors env cols rs k)"


section \<open>Concrete artifacts and inputs\<close>

text \<open>
  A model directory as \<^verbatim>\<open>save_model\<close> writes it: the twelve feature names one per line, a
  label encoding over the three dispositions in sorted order, and a classifier that gives
  every row the probabilities 1/4, 1/4 and 1/2, so that the two merged scores tie.
\<close>

definition demo_classifier :: classifier where
  "demo_classifier = \<lparr>clf_predict = (\<lambda>x. 2), clf_predict_proba = (\<lambda>x. [1/4, 1/4, 1/2])\<rparr>"

definition demo_scaler :: feature_scaler where
  "demo_scaler = \<lparr>transform = (\<lambda>x. x)\<rparr>"

definition demo_encoder :: label_encoding where
  "demo_encoder = \<lparr>classes = [''CANDIDATE'', ''CONFIRMED'', ''FALSE POSITIVE'']\<rparr>"

definition demo_dir :: model_dir where
  "demo_dir = \<lparr>exoplanet_classifier_pkl = Stored demo_classifier,
                feature_scaler_pkl = Stored demo_scaler,
                label_encoder_pkl = Stored demo_encoder,
                feature_names_txt = Stored (map (\<lambda>n. n @ [CHR 0x0A]) koi_feature_columns)\<rparr>"

definition demo_features :: "string \<rightharpoonup> real" where
  "demo_features = map_of
     [(''koi_period'', 10), (''koi_duration'', 3), (''koi_depth'', 500), (''koi_prad'', 2),
      (''koi_teq'', 800), (''koi_insol'', 90), (''koi_model_snr'', 25), (''koi_steff'', 5700),
      (''koi_srad'', 1)]"

text \<open>
  A classifier whose row is 0.5 for \<^verbatim>\<open>CANDIDATE\<close>, \<open>2\<^sup>-\<^sup>5\<^sup>4\<close> for \<^verbatim>\<open>CONFIRMED\<close> and 0.5
  for \<^verbatim>\<open>FALSE POSITIVE\<close>: the exact sum of the first two is above 0.5, their float sum
  is 0.5.
\<close>

definition near_tie_classifier :: classifier where
  "near_tie_classifier =
     \<lparr>clf_predict = (\<lambda>x. 0), clf_predict_proba = (\<lambda>x. [1/2, 1 / 2 ^ 54, 1/2])\<rparr>"

definition near_tie_predictor :: ExoplanetPredictor where
  "near_tie_predictor =
     \<lparr>model = Some near_tie_classifier, scaler = Some demo_scaler,
      label_encoder = Some demo_encoder, feature_columns = Some koi_feature_columns\<rparr>"

text \<open>
  Tables for the training pipeline. A sample row has the given orbital period, transit
  duration and disposition score, and 0 in the nine other feature columns.
\<close>

definition sample_row :: "real option \<Rightarrow> real \<Rightarrow> real option \<Rightarrow> koi_row" where
  "sample_row period duration score =
     \<lparr>num = (\<lambda>c. if c = ''koi_period'' then period
                 else if c = ''koi_duration'' then Some duration
                 else if c = ''koi_score'' then score
                 else if c \<in> set koi_feature_columns then Some 0
                 else None),
      koi_disposition = Some ''CANDIDATE''\<rparr>"

text \<open>
  One column with the values 0, 0, 0, 1 and 3: a first pass of the outlier removal drops
  the 3, and on the four rows left the quartiles have moved so that the 1 is outside.
\<close>

definition skewed_table :: data_frame where
  "skewed_table =
     \<lparr>columns = koi_feature_columns @ [''koi_disposition''],
      rows = [sample_row (Some 0) 0 (Some 0), sample_row (Some 0) 0 (Some 0), sample_row (Some 0) 0 (Some 0),
              sample_row (Some 1) 0 (Some 0), sample_row (Some 3) 0 (Some 0)]\<rparr>"

text \<open>
  The same values in two columns: the filter of the second column sees the rows that the
  first has left.
\<close>

definition paired_table :: data_frame where
  "paired_table =
     \<lparr>columns = koi_feature_columns @ [''koi_disposition''],
      rows = [sample_row (Some 0) 0 (Some 0), sample_row (Some 0) 0 (Some 0),
              sample_row (Some 0) 0 (Some 0), sample_row (Some 1) 1 (Some 0),
              sample_row (Some 3) 3 (Some 0)]\<rparr>"


text \<open>
  A trained classifier of the training module, and an input with all twelve features.
\<close>

definition trained_classifier :: ExoplanetClassifier where
  "trained_classifier =
     new_classifier\<lparr>trainer_model := Some \<lparr>clf_predict = (\<lambda>x. 0),
                                             clf_predict_proba = (\<lambda>x. [2/5, 7/20, 1/4])\<rparr>,
                    trainer_scaler := Some demo_scaler,
                    trainer_label_encoder := Some demo_encoder\<rparr>"

definition full_features :: "string \<rightharpoonup> real" where
  "full_features = map_of (zip koi_feature_columns [10, 3, 500, 2, 800, 90, 25, 5700, 1, 0, 1, 4])"

section \<open>Properties of the predictor\<close>

subsection \<open>The addition of float64\<close>

lemma round_half_even_error: "\<bar>of_int (round_half_even x) - x\<bar> \<le> 1/2"
proof -
  have "of_int \<lfloor>x\<rfloor> \<le> x" "x < of_int \<lfloor>x\<rfloor> + 1" by linarith+
  then show ?thesis
    by (auto simp: round_half_even_def Let_def)
qed

lemma round_half_even_int: "round_half_even (of_int n) = n"
  by (simp add: round_half_even_def)

lemma floor_log2:
  assumes "0 < x" and "2 powr of_int k \<le> x" and "x < 2 powr of_int (k + 1)"
  shows "\<lfloor>log 2 x\<rfloor> = k"
proof (rule floor_unique)
  show "of_int k \<le> log 2 x" using assms by (simp add: le_log_iff)
  show "log 2 x < of_int k + 1" using assms by (simp add: log_less_iff add.commute)
qed

lemma float64_round_error: "\<bar>float64_round x - x\<bar> \<le> \<bar>x\<bar> / 2 ^ 53"
proof (cases "x = 0")
  case True
  then show ?thesis by (simp add: float64_round_def)
next
  case False
  define b where "b = \<lfloor>log 2 \<bar>x\<bar>\<rfloor>"
  define s where "s = (2::real) powr of_int (b - 52)"
  have s0: "0 < s" by (simp add: s_def)
  have "of_int b \<le> log 2 \<bar>x\<bar>" by (simp add: b_def)
  then have "2 powr of_int b \<le> \<bar>x\<bar>" using False by (simp add: le_log_iff)
  moreover have "2 powr of_int b = s * 2 ^ 52"
    by (simp add: s_def powr_diff powr_realpow [symmetric] del: powr_numeral)
  ultimately have sx: "s * 2 ^ 52 \<le> \<bar>x\<bar>" by simp
  have fl: "float64_round x = of_int (round_half_even (x / s)) * s"
    using False by (simp add: float64_round_def b_def s_def Let_def)
  have "float64_round x - x = (of_int (round_half_even (x / s)) - x / s) * s"
    using s0 by (simp add: fl field_simps)
  then have "\<bar>float64_round x - x\<bar> = \<bar>of_int (round_half_even (x / s)) - x / s\<bar> * s"
    using s0 by (simp only: abs_mult abs_of_pos)
  also have "\<dots> \<le> (1/2) * s"
    using round_half_even_error [of "x / s"] s0 by (intro mult_right_mono) auto
  also have "\<dots> \<le> \<bar>x\<bar> / 2 ^ 53" using sx by simp
  finally show ?thesis .
qed

lemma float64_add_error: "\<bar>float64_add a b - (a + b)\<bar> \<le> \<bar>a + b\<bar> / 2 ^ 53"
  unfolding float64_add_def by (rule float64_round_error)

lemma float64_add_commute: "float64_add a b = float64_add b a"
  by (simp add: float64_add_def add.commute)

text \<open>A value \<open>n / 2 ^ k\<close> in the binade of \<open>2 ^ j\<close> with an integer 53-bit significand.\<close>

lemma float64_round_exact:
  assumes "0 < x" and "2 powr of_int k \<le> x" and "x < 2 powr of_int (k + 1)"
    and "x / 2 powr of_int (k - 52) = of_int n"
  shows "float64_round x = x"
proof -
  have "\<lfloor>log 2 \<bar>x\<bar>\<rfloor> = k" using assms(1-3) floor_log2 [of x k] by simp
  then have "float64_round x = of_int (round_half_even (of_int n)) * 2 powr of_int (k - 52)"
    using assms(1,4) by (simp add: float64_round_def Let_def)
  also have "\<dots> = x" using assms(4) by (simp add: round_half_even_int field_simps)
  finally show ?thesis .
qed

lemma float64_round_half: "float64_round (1/2) = 1/2"
  by (rule float64_round_exact [of _ "-1" "2 ^ 52"]) (simp_all add: powr_minus powr_realpow [symmetric] del: powr_numeral)


lemma float64_round_tiny: "float64_round (1 / 2 ^ 54) = 1 / 2 ^ 54"
  by (rule float64_round_exact [of _ "-54" "2 ^ 52"])
     (simp_all add: powr_minus powr_realpow [symmetric] del: powr_numeral)

lemma float64_round_near_tie: "float64_round (1/2 + 1 / 2 ^ 54) = 1/2"
proof -
  have "\<lfloor>log 2 \<bar>1/2 + 1 / 2 ^ 54 :: real\<bar>\<rfloor> = -1"
    by (rule floor_log2) (simp_all add: powr_minus)
  moreover have "(1/2 + 1 / 2 ^ 54) / 2 powr of_int (-1 - 52) = (2 ^ 52 + 1/2 :: real)"
    by (simp add: powr_minus powr_realpow [symmetric] del: powr_numeral)
  moreover have "round_half_even (2 ^ 52 + 1/2) = 2 ^ 52"
  proof -
    have "\<lfloor>2 ^ 52 + 1/2 :: real\<rfloor> = 2 ^ 52" by (rule floor_unique) simp_all
    then show ?thesis by (simp add: round_half_even_def Let_def)
  qed
  ultimately show ?thesis
    by (simp add: float64_round_def Let_def powr_minus powr_realpow [symmetric] del: powr_numeral)
qed

lemma float64_add_zero_examples:
  "float64_add 0 0 = 0"
  "float64_add 0 (1 / 2) = 1 / 2"
  "float64_add 0 (1 / 18014398509481984) = 1 / 18014398509481984"
  using float64_round_half float64_round_tiny
  by (simp_all add: float64_add_def float64_round_def)

lemma float64_add_near_tie:
  "float64_add (1 / 18014398509481984) (1 / 2) = 1 / 2"
  using float64_round_near_tie by (simp add: float64_add_def)

subsection \<open>Loading\<close>

lemma load_model_absent:
  assumes "exoplanet_classifier_pkl d = Absent \<or> feature_scaler_pkl d = Absent
           \<or> label_encoder_pkl d = Absent \<or> feature_names_txt d = Absent"
  shows "load_model d self = self"
  using assms by (auto simp: load_model_def exists_file_def)

lemma demo_loaded:
  "init_predictor demo_dir =
     \<lparr>model = Some demo_classifier, scaler = Some demo_scaler,
      label_encoder = Some demo_encoder, feature_columns = Some koi_feature_columns\<rparr>"
  by (simp add: init_predictor_def load_model_def demo_dir_def exists_file_def
      koi_feature_columns_def strip_def is_space_def)

subsection \<open>Validation in closed form\<close>

lemma fill_missing_closed:
  "fill_missing cols f =
     (case first_missing cols f of
        Some c \<Rightarrow> Inl (missing_feature c)
      | None \<Rightarrow> Inr (\<lambda>k. if k \<in> set cols \<and> f k = None then Some 0 else f k))"
proof (induction cols arbitrary: f)
  case Nil
  then show ?case by (simp add: first_missing_def)
next
  case (Cons col cols)
  let ?filled = "\<lambda>cs g k. if k \<in> set cs \<and> g k = None then Some (0::real) else g k"
  show ?case
  proof (cases "f col = None")
    case False
    then have fm: "first_missing (col # cols) f = first_missing cols f"
      by (auto simp: first_missing_def)
    have eq: "?filled (col # cols) f = ?filled cols f"
      using False by (auto simp: fun_eq_iff)
    have "fill_missing (col # cols) f = fill_missing cols f"
      using False by auto
    also have "\<dots> = (case first_missing cols f of
        Some c \<Rightarrow> Inl (missing_feature c) | None \<Rightarrow> Inr (?filled cols f))"
      by (rule Cons.IH)
    finally show ?thesis by (simp only: fm eq)
  next
    case None: True
    show ?thesis
    proof (cases "col \<in> set optional_params")
      case False
      with None show ?thesis by (simp add: first_missing_def)
    next
      case True
      have same: "first_missing cols (f(col \<mapsto> 0)) = first_missing cols f"
        unfolding first_missing_def using True
        by (intro find_cong) auto
      have fm: "first_missing (col # cols) f = first_missing cols f"
        using True by (simp add: first_missing_def)
      have eq: "?filled (col # cols) f = ?filled cols (f(col \<mapsto> 0))"
        using None by (auto simp: fun_eq_iff)
      have "fill_missing (col # cols) f = fill_missing cols (f(col \<mapsto> 0))"
        using None True by simp
      also have "\<dots> = (case first_missing cols (f(col \<mapsto> 0)) of
          Some c \<Rightarrow> Inl (missing_feature c) | None \<Rightarrow> Inr (?filled cols (f(col \<mapsto> 0))))"
        by (rule Cons.IH)
      finally show ?thesis by (simp only: fm eq same)
    qed
  qed
qed

lemma select_columns_total:
  "\<forall>c\<in>set cols. df c \<noteq> None \<Longrightarrow> select_columns cols df = Inr (map (\<lambda>c. the (df c)) cols)"
  by (induction cols) auto

lemma first_missing_None:
  "first_missing cols f = None \<longleftrightarrow> (\<forall>c\<in>set cols. c \<notin> set optional_params \<longrightarrow> f c \<noteq> None)"
  by (auto simp: first_missing_def find_None_iff)

lemma validated_closed:
  "validated cols f =
     (case first_missing cols f of
        Some c \<Rightarrow> Inl (missing_feature c)
      | None \<Rightarrow> Inr (feature_row cols f))"
proof (cases "first_missing cols f")
  case (Some c)
  then show ?thesis by (simp add: validated_def fill_missing_closed)
next
  case None
  let ?df = "\<lambda>k. if k \<in> set cols \<and> f k = None then Some 0 else f k"
  have "\<forall>c\<in>set cols. ?df c \<noteq> None" by auto
  then have "select_columns cols ?df = Inr (map (\<lambda>c. the (?df c)) cols)"
    by (rule select_columns_total)
  moreover have "map (\<lambda>c. the (?df c)) cols = feature_row cols f"
    by (auto simp: feature_row_def split: option.splits)
  ultimately show ?thesis using None
    by (simp add: validated_def fill_missing_closed)
qed

lemma predict_validated:
  "predict fadd self features =
     (case model self of
        None \<Rightarrow> Inl model_not_loaded
      | Some m \<Rightarrow>
     (case feature_columns self of
        None \<Rightarrow> Inl TypeError
      | Some cols \<Rightarrow>
     (case validated cols features of
        Inl e \<Rightarrow> Inl e
      | Inr features_selected \<Rightarrow>
     (case scaler self of
        None \<Rightarrow> Inl AttributeError
      | Some sc \<Rightarrow>
     (case label_encoder self of
        None \<Rightarrow> Inl AttributeError
      | Some le \<Rightarrow>
     (case inverse_transform le (clf_predict m (transform sc features_selected)) of
        Inl e \<Rightarrow> Inl e
      | Inr predicted_label \<Rightarrow>
     (case collect_scores (classes le) 0 (clf_predict_proba m (transform sc features_selected)) [] of
        Inl e \<Rightarrow> Inl e
      | Inr scores \<Rightarrow> Inr (merge_and_decide fadd scores cols))))))))"
  by (simp add: predict_def validated_def Let_def split: option.splits sum.splits)

subsection \<open>The two dictionary loops\<close>

lemma update_fresh: "k \<notin> fst ` set al \<Longrightarrow> AList.update k v al = al @ [(k, v)]"
  by (induction al) auto

lemma collect_scores_distinct:
  "distinct cls \<Longrightarrow> set cls \<inter> fst ` set d = {} \<Longrightarrow> i + length cls \<le> length probs \<Longrightarrow>
   collect_scores cls i probs d = Inr (d @ zip cls (drop i probs))"
proof (induction cls arbitrary: i d)
  case Nil
  then show ?case by simp
next
  case (Cons c cs)
  have i: "i < length probs" using Cons.prems by simp
  have upd: "AList.update c (probs ! i) d = d @ [(c, probs ! i)]"
    using Cons.prems by (intro update_fresh) auto
  have "collect_scores cs (Suc i) probs (d @ [(c, probs ! i)])
          = Inr ((d @ [(c, probs ! i)]) @ zip cs (drop (Suc i) probs))"
    using Cons.prems by (intro Cons.IH) auto
  then show ?case using i upd
    by (simp add: Cons_nth_drop_Suc [symmetric])
qed

lemma merge_scores_eq:
  "merge_scores fadd d (m, cc) =
     (fold (\<lambda>(c, s). AList.update c s) (filter (\<lambda>(c, s). c \<notin> set [''CONFIRMED'', ''CANDIDATE'']) d) m,
      foldl fadd cc (map snd (filter (\<lambda>(c, s). c \<in> set [''CONFIRMED'', ''CANDIDATE'']) d)))"
  by (induction d arbitrary: m cc) auto

lemma fold_update_fresh:
  "distinct (map fst d) \<Longrightarrow> fst ` set d \<inter> fst ` set m = {} \<Longrightarrow>
   fold (\<lambda>(c, s). AList.update c s) d m = m @ d"
proof (induction d arbitrary: m)
  case Nil
  then show ?case by simp
next
  case (Cons p d)
  obtain c s where p: "p = (c, s)" by (cases p)
  have "AList.update c s m = m @ [(c, s)]"
    using Cons.prems p by (intro update_fresh) auto
  moreover have "fold (\<lambda>(c, s). AList.update c s) d (m @ [(c, s)]) = (m @ [(c, s)]) @ d"
    using Cons.prems p by (intro Cons.IH) (auto simp: image_iff)
  ultimately show ?case using p by simp
qed

lemma filter_one_key:
  "distinct (map fst d) \<Longrightarrow>
   map snd (filter (\<lambda>(k, v). k = k0) d) = (case map_of d k0 of None \<Rightarrow> [] | Some v \<Rightarrow> [v])"
proof (induction d)
  case Nil
  then show ?case by simp
next
  case (Cons p d)
  obtain k v where p: "p = (k, v)" by (cases p)
  have none: "map_of d k = None" using Cons.prems p by (simp add: map_of_eq_None_iff)
  show ?case
  proof (cases "k = k0")
    case True
    with none Cons p show ?thesis by simp
  next
    case False
    with Cons p show ?thesis by simp
  qed
qed

text \<open>
  The running sum over the entries of two keys, from 0, for an addition that is commutative
  and leaves a value unchanged when it is added to 0: the order of the two keys in the
  dictionary does not matter.
\<close>

lemma fold_two_keys:
  fixes f :: "real \<Rightarrow> real \<Rightarrow> real"
  assumes "distinct (map fst d)" and "k1 \<noteq> k2"
    and comm: "\<forall>a b. f a b = f b a"
    and zero: "\<forall>v\<in>insert 0 (snd ` set d). f 0 v = v"
  shows "foldl f 0 (map snd (filter (\<lambda>(k, v). k = k1 \<or> k = k2) d))
         = f (case map_of d k1 of None \<Rightarrow> 0 | Some v \<Rightarrow> v)
             (case map_of d k2 of None \<Rightarrow> 0 | Some v \<Rightarrow> v)"
  using assms(1) zero
proof (induction d)
  case Nil
  then show ?case by simp
next
  case (Cons p d)
  obtain k v where p: "p = (k, v)" by (cases p)
  have none: "map_of d k = None" using Cons.prems p by (simp add: map_of_eq_None_iff)
  have dist: "distinct (map fst d)" using Cons.prems by simp
  have zv: "f 0 v = v" using Cons.prems p by simp
  have zd: "\<forall>w\<in>insert 0 (snd ` set d). f 0 w = w" using Cons.prems by simp
  show ?case
  proof (cases "k = k1")
    case True
    have "filter (\<lambda>(k, v). k = k1 \<or> k = k2) d = filter (\<lambda>(k, v). k = k2) d"
      using none True by (intro filter_cong) (auto simp: map_of_eq_None_iff image_iff)
    then have "map snd (filter (\<lambda>(k, v). k = k1 \<or> k = k2) d)
        = (case map_of d k2 of None \<Rightarrow> [] | Some w \<Rightarrow> [w])"
      using filter_one_key [OF dist, of k2] by simp
    moreover have "f v 0 = v" using comm zv by metis
    ultimately show ?thesis using True p assms(2) zv
      by (simp split: option.splits)
  next
    case k1: False
    show ?thesis
    proof (cases "k = k2")
      case True
      have "filter (\<lambda>(k, v). k = k1 \<or> k = k2) d = filter (\<lambda>(k, v). k = k1) d"
        using none True by (intro filter_cong) (auto simp: map_of_eq_None_iff image_iff)
      then have "map snd (filter (\<lambda>(k, v). k = k1 \<or> k = k2) d)
          = (case map_of d k1 of None \<Rightarrow> [] | Some w \<Rightarrow> [w])"
        using filter_one_key [OF dist, of k1] by simp
      moreover have "f v w = f w v" for w using comm by metis
      ultimately show ?thesis using True p k1 zv
        by (simp split: option.splits)
    next
      case False
      with k1 p Cons.IH [OF dist zd] show ?thesis by simp
    qed
  qed
qed

lemma map_of_filter_keys:
  "map_of (filter (\<lambda>(c, s). P c) d) k = (if P k then map_of d k else None)"
  by (induction d) auto

lemma sum_list_filter_split:
  "sum_list (map f (filter P xs)) + sum_list (map f (filter (\<lambda>x. \<not> P x) xs))
     = (sum_list (map f xs) :: real)"
  by (induction xs) auto

lemma distinct_singleton: "distinct xs \<Longrightarrow> set xs = {a} \<Longrightarrow> xs = [a]"
  by (cases xs) (auto simp: insert_eq_iff dest: subset_singletonD)

lemma merge_and_decide_distinct:
  assumes "distinct (map fst scores)"
  shows "merge_and_decide fadd scores cols =
     (let cc = foldl fadd 0
                 (map snd (filter (\<lambda>(c, s). c \<in> set [''CONFIRMED'', ''CANDIDATE'']) scores));
          fp = dict_get scores ''FALSE POSITIVE'' 0;
          merged = AList.update ''CONFIRMED/CANDIDATE'' cc
                     (filter (\<lambda>(c, s). c \<notin> set [''CONFIRMED'', ''CANDIDATE'']) scores)
      in if cc > fp
         then \<lparr>prediction = ''CONFIRMED/CANDIDATE'', confidence_scores = merged,
               max_confidence = cc, features_used = cols\<rparr>
         else \<lparr>prediction = ''FALSE POSITIVE'', confidence_scores = merged,
               max_confidence = fp, features_used = cols\<rparr>)"
proof -
  let ?neg = "filter (\<lambda>(c, s). c \<notin> set [''CONFIRMED'', ''CANDIDATE'']) scores"
  let ?pos = "filter (\<lambda>(c, s). c \<in> set [''CONFIRMED'', ''CANDIDATE'']) scores"
  have d: "distinct (map fst ?neg)"
    using assms by (simp add: distinct_map_filter)
  have m: "merge_scores fadd scores ([], 0) = (?neg, foldl fadd 0 (map snd ?pos))"
    using fold_update_fresh [OF d, of "[]"] by (simp add: merge_scores_eq)
  have fp: "dict_get (AList.update ''CONFIRMED/CANDIDATE'' x (filter (\<lambda>(c, s). P c) scores))
        ''FALSE POSITIVE'' 0 = dict_get scores ''FALSE POSITIVE'' 0"
    if "P ''FALSE POSITIVE''" for x P
    using that by (simp add: dict_get_def update_conv' map_of_filter_keys)
  show ?thesis
    unfolding merge_and_decide_def m
    by (simp add: fp Let_def)
qed

lemma predict_ok:
  assumes "model self = Some m" "scaler self = Some sc" "label_encoder self = Some le"
    "feature_columns self = Some cols"
    and "first_missing cols features = None"
    and "clf_predict m (transform sc (feature_row cols features)) < length (classes le)"
    and "distinct (classes le)"
    and "length (classes le) \<le> length (clf_predict_proba m (transform sc (feature_row cols features)))"
  shows "predict fadd self features =
     Inr (merge_and_decide fadd
            (zip (classes le) (clf_predict_proba m (transform sc (feature_row cols features)))) cols)"
proof -
  have "collect_scores (classes le) 0 (clf_predict_proba m (transform sc (feature_row cols features))) []
      = Inr ([] @ zip (classes le) (drop 0 (clf_predict_proba m (transform sc (feature_row cols features)))))"
    using assms by (intro collect_scores_distinct) auto
  then show ?thesis using assms
    by (simp add: predict_validated validated_closed inverse_transform_def)
qed

lemma demo_predict:
  "predict (+) (init_predictor demo_dir) demo_features =
     Inr \<lparr>prediction = ''FALSE POSITIVE'',
          confidence_scores = [(''FALSE POSITIVE'', 1/2), (''CONFIRMED/CANDIDATE'', 1/2)],
          max_confidence = 1/2,
          features_used = koi_feature_columns\<rparr>"
  by (simp add: demo_loaded predict_def koi_feature_columns_def demo_features_def
      optional_params_def demo_scaler_def demo_classifier_def demo_encoder_def
      inverse_transform_def merge_and_decide_def dict_get_def Let_def)

subsection \<open>The claims about the predictor\<close>

lemma scores_values_subset:
  "snd ` set (zip cls probs) \<subseteq> set probs"
  by (auto dest: set_zip_rightD)

text \<open>
  Claim C1 (merge-and-decide rule). On a predictor with all four artifacts loaded and an
  input with every required feature, \<^verbatim>\<open>predict\<close> returns a result. Its verdict is
  \<^verbatim>\<open>CONFIRMED/CANDIDATE\<close> exactly when the sum of the probabilities of \<^verbatim>\<open>CONFIRMED\<close> and
  \<^verbatim>\<open>CANDIDATE\<close> is strictly greater than the probability of \<^verbatim>\<open>FALSE POSITIVE\<close>, and
  \<^verbatim>\<open>FALSE POSITIVE\<close> otherwise, in particular when the two sides are equal;
  \<^verbatim>\<open>max_confidence\<close> is the merged score of the winning side. The sum is the float sum
  that the code computes: \<open>fadd\<close> is any addition that is commutative and leaves each
  probability unchanged when it is added to 0.0, as the addition of floats does. The
  theorem holds for every list of distinct class names, the three dispositions among them.
\<close>

theorem merge_and_decide_rule:
  assumes "model self = Some m" and "scaler self = Some sc"
    and "label_encoder self = Some le" and "feature_columns self = Some cols"
    and "\<forall>c\<in>set cols. c \<notin> set optional_params \<longrightarrow> features c \<noteq> None"
    and "distinct (classes le)"
    and "length (clf_predict_proba m (transform sc (feature_row cols features))) = length (classes le)"
    and "clf_predict m (transform sc (feature_row cols features)) < length (classes le)"
    and comm: "\<forall>a b. fadd a b = fadd b a"
    and zero: "\<forall>p\<in>insert 0 (set (clf_predict_proba m (transform sc (feature_row cols features)))).
                 fadd 0 p = p"
  shows "let probabilities = clf_predict_proba m (transform sc (feature_row cols features));
             positive = fadd (class_probability le probabilities ''CONFIRMED'')
                             (class_probability le probabilities ''CANDIDATE'');
             negative = class_probability le probabilities ''FALSE POSITIVE''
         in \<exists>r. predict fadd self features = Inr r
              \<and> (prediction r = ''CONFIRMED/CANDIDATE'' \<longleftrightarrow> positive > negative)
              \<and> (prediction r = ''FALSE POSITIVE'' \<longleftrightarrow> positive \<le> negative)
              \<and> (positive = negative \<longrightarrow> prediction r = ''FALSE POSITIVE'')
              \<and> max_confidence r = (if positive > negative then positive else negative)"
proof -
  let ?probs = "clf_predict_proba m (transform sc (feature_row cols features))"
  let ?scores = "zip (classes le) ?probs"
  have fm: "first_missing cols features = None"
    using assms(5) by (simp add: first_missing_None)
  have p: "predict fadd self features = Inr (merge_and_decide fadd ?scores cols)"
    using assms(1-4) fm assms(8) assms(6) assms(7) by (intro predict_ok) auto
  have d: "distinct (map fst ?scores)"
    using assms(6,7) by simp
  have z: "\<forall>v\<in>insert 0 (snd ` set ?scores). fadd 0 v = v"
    using zero scores_values_subset [of "classes le" ?probs] by auto
  have "foldl fadd 0 (map snd (filter (\<lambda>(k, v). k = ''CONFIRMED'' \<or> k = ''CANDIDATE'') ?scores))
      = fadd (case map_of ?scores ''CONFIRMED'' of None \<Rightarrow> 0 | Some v \<Rightarrow> v)
             (case map_of ?scores ''CANDIDATE'' of None \<Rightarrow> 0 | Some v \<Rightarrow> v)"
    using d _ comm z by (rule fold_two_keys) simp
  then have cc: "foldl fadd 0
        (map snd (filter (\<lambda>(c, s). c \<in> set [''CONFIRMED'', ''CANDIDATE'']) ?scores))
      = fadd (class_probability le ?probs ''CONFIRMED'') (class_probability le ?probs ''CANDIDATE'')"
    by (simp add: class_probability_def dict_get_def)
  show ?thesis
    unfolding p merge_and_decide_distinct [OF d] cc
    by (simp add: Let_def class_probability_def)
qed

text \<open>
  With the addition of float64 and the probabilities 0.5, \<open>2\<^sup>-\<^sup>5\<^sup>4\<close> and 0.5, the
  merged score is 0.5 and the verdict is \<^verbatim>\<open>FALSE POSITIVE\<close>, although the exact sum of
  the two probabilities is above 0.5.
\<close>

theorem merge_and_decide_rule_witness:
  "(\<exists>r. predict float64_add near_tie_predictor demo_features = Inr r
         \<and> prediction r = ''FALSE POSITIVE'' \<and> max_confidence r = 1/2)
   \<and> float64_add (1 / 2 ^ 54) (1/2) = 1/2
   \<and> (1/2 :: real) < 1 / 2 ^ 54 + 1/2"
proof -
  have present: "\<forall>c\<in>set koi_feature_columns. c \<notin> set optional_params \<longrightarrow> demo_features c \<noteq> None"
    by (simp add: koi_feature_columns_def optional_params_def demo_features_def)
  have comm: "\<forall>a b. float64_add a b = float64_add b a"
    using float64_add_commute by blast
  have zero: "\<forall>p\<in>insert 0 (set (clf_predict_proba near_tie_classifier
      (transform demo_scaler (feature_row koi_feature_columns demo_features)))).
        float64_add 0 p = p"
    by (simp add: near_tie_classifier_def float64_add_zero_examples)
  have "\<exists>r. predict float64_add near_tie_predictor demo_features = Inr r
         \<and> prediction r = ''FALSE POSITIVE'' \<and> max_confidence r = 1/2"
    using merge_and_decide_rule [of near_tie_predictor near_tie_classifier demo_scaler
      demo_encoder koi_feature_columns demo_features float64_add, OF _ _ _ _ present _ _ _ comm zero]
    by (auto simp: near_tie_predictor_def demo_encoder_def near_tie_classifier_def
        class_probability_def dict_get_def Let_def float64_add_near_tie)
  moreover have "float64_add (1 / 2 ^ 54) (1/2) = 1/2"
    using float64_add_near_tie by simp
  ultimately show ?thesis by simp
qed

text \<open>
  Claim C2 (two keys summing to one). With all required features present, a label
  encoding over exactly the three dispositions and class probabilities that sum to 1,
  \<^verbatim>\<open>predict\<close> does not raise, the keys of its confidence mapping are exactly
  \<^verbatim>\<open>FALSE POSITIVE\<close> and \<^verbatim>\<open>CONFIRMED/CANDIDATE\<close>, and its values sum to 1 within one
  millionth. The addition \<open>fadd\<close> of the merging loop may round with the relative error
  of float64, \<open>2\<^sup>-\<^sup>5\<^sup>3\<close>; the probabilities are then taken to be non-negative, which
  is not needed when the addition is exact.
\<close>

theorem confidence_two_keys_sum:
  assumes "model self = Some m" and "scaler self = Some sc"
    and "label_encoder self = Some le" and "feature_columns self = Some cols"
    and "\<forall>c\<in>set cols. c \<notin> set optional_params \<longrightarrow> features c \<noteq> None"
    and "distinct (classes le)"
    and "set (classes le) = {''CONFIRMED'', ''CANDIDATE'', ''FALSE POSITIVE''}"
    and "length (clf_predict_proba m (transform sc (feature_row cols features))) = length (classes le)"
    and "clf_predict m (transform sc (feature_row cols features)) < length (classes le)"
    and "sum_list (clf_predict_proba m (transform sc (feature_row cols features))) = 1"
    and accurate: "\<forall>a b. \<bar>fadd a b - (a + b)\<bar> \<le> \<bar>a + b\<bar> / 2 ^ 53"
    and exact_or_nonneg: "(\<forall>a b. fadd a b = a + b)
        \<or> (\<forall>p\<in>set (clf_predict_proba m (transform sc (feature_row cols features))). 0 \<le> p)"
  shows "\<exists>r. predict fadd self features = Inr r
           \<and> map fst (confidence_scores r) = [''FALSE POSITIVE'', ''CONFIRMED/CANDIDATE'']
           \<and> \<bar>sum_list (map snd (confidence_scores r)) - 1\<bar> \<le> 1 / 10 ^ 6"
proof -
  let ?probs = "clf_predict_proba m (transform sc (feature_row cols features))"
  let ?scores = "zip (classes le) ?probs"
  let ?pos = "\<lambda>c. c \<in> set [''CONFIRMED'', ''CANDIDATE'']"
  let ?neg = "filter (\<lambda>(c, s). \<not> ?pos c) ?scores"
  let ?posl = "filter (\<lambda>(c, s). ?pos c) ?scores"
  have fm: "first_missing cols features = None"
    using assms(5) by (simp add: first_missing_None)
  have p: "predict fadd self features = Inr (merge_and_decide fadd ?scores cols)"
    using assms(1-4) fm assms(9) assms(6) assms(8) by (intro predict_ok) auto
  have d: "distinct (map fst ?scores)"
    using assms(6,8) by simp
  have keys: "map fst (filter (\<lambda>(c, s). P c) ?scores) = filter P (classes le)" for P
  proof -
    have "map fst (filter (\<lambda>(c, s). P c) ?scores) = filter P (map fst ?scores)"
      by (simp add: filter_map comp_def case_prod_unfold)
    then show ?thesis using assms(8) by simp
  qed
  have "distinct (filter (\<lambda>c. \<not> ?pos c) (classes le))"
    using assms(6) by simp
  moreover have "set (filter (\<lambda>c. \<not> ?pos c) (classes le)) = {''FALSE POSITIVE''}"
    using assms(7) by auto
  ultimately have "filter (\<lambda>c. \<not> ?pos c) (classes le) = [''FALSE POSITIVE'']"
    by (rule distinct_singleton)
  then have neg_keys: "map fst ?neg = [''FALSE POSITIVE'']"
    using keys [of "\<lambda>c. \<not> ?pos c"] by simp
  then obtain z where negl: "?neg = [(''FALSE POSITIVE'', z)]"
    by (cases ?neg) auto
  have pos_set: "set (filter ?pos (classes le)) = {''CONFIRMED'', ''CANDIDATE''}"
    using assms(7) by auto
  have "distinct (filter ?pos (classes le))"
    using assms(6) by (rule distinct_filter)
  then have "card (set (filter ?pos (classes le))) = length (filter ?pos (classes le))"
    by (rule distinct_card)
  then have "length (filter ?pos (classes le)) = 2"
    unfolding pos_set by simp
  then have "length (map fst ?posl) = 2"
    using keys [of ?pos] by simp
  then have "length (map snd ?posl) = 2" by simp
  then obtain x y where posl: "map snd ?posl = [x, y]"
    by (cases "map snd ?posl"; cases "tl (map snd ?posl)") auto
  have mem: "set (map snd (filter Q ?scores)) \<subseteq> set ?probs" for Q
    using scores_values_subset [of "classes le" ?probs] by auto
  have "set (map snd ?posl) \<subseteq> set ?probs" by (rule mem)
  then have xy: "x \<in> set ?probs" "y \<in> set ?probs"
    unfolding posl by simp_all
  have "set (map snd ?neg) \<subseteq> set ?probs" by (rule mem)
  then have z: "z \<in> set ?probs"
    unfolding negl by simp
  note xyz = xy z
  have "sum_list (map snd ?posl)
        + sum_list (map snd (filter (\<lambda>x. \<not> (case x of (c, s) \<Rightarrow> ?pos c)) ?scores))
      = sum_list (map snd ?scores)"
    by (rule sum_list_filter_split)
  moreover have "filter (\<lambda>x. \<not> (case x of (c, s) \<Rightarrow> ?pos c)) ?scores = ?neg"
    by (simp add: case_prod_unfold)
  moreover have "sum_list (map snd ?scores) = 1"
    using assms(8,10) by simp
  ultimately have total: "x + y + z = 1"
    using posl negl by simp
  define cc where "cc = fadd (fadd 0 x) y"
  have ccf: "foldl fadd 0 (map snd ?posl) = cc"
    unfolding posl cc_def by simp
  have "''CONFIRMED/CANDIDATE'' \<notin> set (map fst ?neg)"
    unfolding neg_keys by simp
  then have fresh: "''CONFIRMED/CANDIDATE'' \<notin> fst ` set ?neg"
    by (simp only: set_map simp_thms)
  have merged: "AList.update ''CONFIRMED/CANDIDATE'' cc ?neg = ?neg @ [(''CONFIRMED/CANDIDATE'', cc)]"
    using fresh by (rule update_fresh)
  have cs: "confidence_scores (merge_and_decide fadd ?scores cols) = ?neg @ [(''CONFIRMED/CANDIDATE'', cc)]"
    unfolding merge_and_decide_distinct [OF d] ccf
    using merged by (simp add: Let_def)
  have close: "\<bar>z + cc - 1\<bar> \<le> 1 / 10 ^ 6"
    using exact_or_nonneg
  proof
    assume "\<forall>a b. fadd a b = a + b"
    then have "cc = x + y" by (simp add: cc_def)
    with total show ?thesis by simp
  next
    assume "\<forall>p\<in>set ?probs. 0 \<le> p"
    then have nn: "0 \<le> x" "0 \<le> y" "0 \<le> z" using xyz by auto
    define s1 where "s1 = fadd 0 x"
    have a1: "\<bar>s1 - x\<bar> \<le> x / 9007199254740992"
      using accurate [rule_format, of 0 x] nn by (simp add: s1_def)
    have a2: "\<bar>cc - (s1 + y)\<bar> \<le> \<bar>s1 + y\<bar> / 9007199254740992"
      using accurate [rule_format, of s1 y] by (simp add: cc_def s1_def)
    have x1: "x \<le> 1" "y \<le> 1" using nn total by linarith+
    have e1: "\<bar>s1 - x\<bar> \<le> 1 / 9007199254740992"
      using a1 x1 nn by linarith
    then have "s1 \<le> 2" "0 \<le> s1 + y" using x1 nn a1 by linarith+
    then have sy: "\<bar>s1 + y\<bar> \<le> 3" using x1 by linarith
    have "\<bar>s1 + y\<bar> / 9007199254740992 \<le> 3 / 9007199254740992"
      using sy by (rule divide_right_mono) simp
    then have e2: "\<bar>cc - (s1 + y)\<bar> \<le> 3 / 9007199254740992"
      using a2 by linarith
    have "z + cc - 1 = (cc - (s1 + y)) + (s1 - x)" using total by simp
    then have "\<bar>z + cc - 1\<bar> \<le> 4 / 9007199254740992" using e1 e2 by linarith
    then show ?thesis by simp
  qed
  have cs2: "confidence_scores (merge_and_decide fadd ?scores cols)
      = [(''FALSE POSITIVE'', z), (''CONFIRMED/CANDIDATE'', cc)]"
    using cs unfolding negl by simp
  show ?thesis
    unfolding p using cs2 close by simp
qed

theorem confidence_two_keys_sum_witness:
  "\<exists>r. predict float64_add (init_predictor demo_dir) demo_features = Inr r
       \<and> map fst (confidence_scores r) = [''FALSE POSITIVE'', ''CONFIRMED/CANDIDATE'']
       \<and> \<bar>sum_list (map snd (confidence_scores r)) - 1\<bar> \<le> 1 / 10 ^ 6"
proof -
  have present: "\<forall>c\<in>set koi_feature_columns. c \<notin> set optional_params \<longrightarrow> demo_features c \<noteq> None"
    by (simp add: koi_feature_columns_def optional_params_def demo_features_def)
  have accurate: "\<forall>a b. \<bar>float64_add a b - (a + b)\<bar> \<le> \<bar>a + b\<bar> / 2 ^ 53"
    using float64_add_error by blast
  have nonneg: "(\<forall>a b. float64_add a b = a + b)
      \<or> (\<forall>p\<in>set (clf_predict_proba demo_classifier
            (transform demo_scaler (feature_row koi_feature_columns demo_features))). 0 \<le> p)"
    by (simp add: demo_classifier_def)
  from confidence_two_keys_sum [of "init_predictor demo_dir" demo_classifier demo_scaler
      demo_encoder koi_feature_columns demo_features float64_add,
      OF _ _ _ _ present _ _ _ _ _ accurate nonneg]
  show ?thesis
    by (auto simp: demo_loaded demo_encoder_def demo_classifier_def)
qed

text \<open>
  What the validation raises in general: the error for the first persisted column, in the
  persisted order, that is required and missing.
\<close>

lemma first_missing_feature_raised:
  assumes "model self = Some m" and "feature_columns self = Some cols"
    and "first_missing cols features = Some g"
  shows "predict fadd self features = Inl (missing_feature g)"
  using assms by (simp add: predict_validated validated_closed)

lemma first_missing_only:
  assumes "f \<in> set cols" and "f \<notin> set optional_params" and "features f = None"
    and "\<forall>c\<in>set cols. c \<noteq> f \<and> c \<notin> set optional_params \<longrightarrow> features c \<noteq> None"
  shows "first_missing cols features = Some f"
proof -
  from assms(1-3) have "first_missing cols features \<noteq> None"
    by (auto simp: first_missing_None)
  then obtain g where g: "first_missing cols features = Some g" by auto
  then have "g \<in> set cols" "g \<notin> set optional_params" "features g = None"
    by (auto simp: first_missing_def find_Some_iff)
  with assms(4) g show ?thesis by auto
qed

text \<open>
  Claim C3 (missing required feature). For each persisted column \<open>f\<close> that is not one of
  the three optional names, an input that lacks \<open>f\<close> and has the other required columns
  makes \<^verbatim>\<open>predict\<close> raise the \<^verbatim>\<open>ValueError\<close> whose message names \<open>f\<close>. The nine required
  features are taken in turn by the nine values of \<open>f\<close>.
\<close>

theorem missing_required_feature:
  assumes "model self = Some m" and "feature_columns self = Some cols"
    and "f \<in> set cols" and "f \<notin> set optional_params" and "features f = None"
    and "\<forall>c\<in>set cols. c \<noteq> f \<and> c \<notin> set optional_params \<longrightarrow> features c \<noteq> None"
  shows "predict fadd self features =
           Inl (ValueError (''Required feature '' @ [CHR 0x27] @ f @ [CHR 0x27] @ '' is missing''))
         \<and> sublist f (''Required feature '' @ [CHR 0x27] @ f @ [CHR 0x27] @ '' is missing'')"
proof -
  have "first_missing cols features = Some f"
    using assms(3-6) by (rule first_missing_only)
  then have "predict fadd self features = Inl (missing_feature f)"
    using assms(1,2) by (simp add: predict_validated validated_closed)
  moreover have "sublist f ((''Required feature '' @ [CHR 0x27]) @ f @ ([CHR 0x27] @ '' is missing''))"
    by (rule sublist_appendI)
  ultimately show ?thesis by (simp add: missing_feature_def)
qed

text \<open>
  Each of the nine required features omitted in turn from an input that has all of them.
\<close>

theorem missing_required_feature_witness:
  "list_all
     (\<lambda>f. predict (+) (init_predictor demo_dir) (demo_features(f := None)) =
             Inl (ValueError (''Required feature '' @ [CHR 0x27] @ f @ [CHR 0x27] @ '' is missing'')))
     (take 9 koi_feature_columns)
   \<and> predict (+) (init_predictor demo_dir) (demo_features(''koi_teq'' := None)) =
       Inl (ValueError ''Required feature 'koi_teq' is missing'')"
proof -
  have a: "model (init_predictor demo_dir) = Some demo_classifier"
    and b: "feature_columns (init_predictor demo_dir) = Some koi_feature_columns"
    by (simp_all add: demo_loaded)
  have present: "\<forall>c\<in>set koi_feature_columns. c \<notin> set optional_params \<longrightarrow> demo_features c \<noteq> None"
    by (simp add: koi_feature_columns_def optional_params_def demo_features_def)
  have one: "predict (+) (init_predictor demo_dir) (demo_features(f := None)) =
      Inl (ValueError (''Required feature '' @ [CHR 0x27] @ f @ [CHR 0x27] @ '' is missing''))"
    if "f \<in> set (take 9 koi_feature_columns)" for f
  proof -
    have c: "f \<in> set koi_feature_columns" using that by (rule in_set_takeD)
    have d: "f \<notin> set optional_params"
      using that by (auto simp: koi_feature_columns_def optional_params_def)
    have e: "(demo_features(f := None)) f = None" by simp
    have others: "\<forall>c\<in>set koi_feature_columns. c \<noteq> f \<and> c \<notin> set optional_params
        \<longrightarrow> (demo_features(f := None)) c \<noteq> None"
      using present by simp
    from missing_required_feature [of "init_predictor demo_dir" demo_classifier
        koi_feature_columns f "demo_features(f := None)" "(+)", OF a b c d e others]
    show ?thesis by blast
  qed
  have "''koi_teq'' \<in> set (take 9 koi_feature_columns)"
    by (simp add: koi_feature_columns_def)
  from one [OF this] one show ?thesis
    by (simp add: list_all_iff)
qed

text \<open>
  Claim C7 (optional-feature defaulting). Omitting one of the three optional feature ids
  and supplying 0.0 for it give the same outcome of \<^verbatim>\<open>predict\<close>, on every predictor and
  every input. On a predictor with its four artifacts loaded and an input with the
  required features, the row passed on has 0 at the place of the omitted feature, and both
  calls return the same \<^verbatim>\<open>PredictionResult\<close>, with the persisted feature order.
\<close>

theorem optional_default_zero:
  assumes "opt \<in> set optional_params"
  shows "predict fadd self (features(opt := None)) = predict fadd self (features(opt \<mapsto> 0))
         \<and> feature_row cols (features(opt := None)) = feature_row cols (features(opt \<mapsto> 0))
         \<and> (model self = Some m \<and> scaler self = Some sc \<and> label_encoder self = Some le
              \<and> feature_columns self = Some cols
              \<and> (\<forall>c\<in>set cols. c \<notin> set optional_params \<longrightarrow> features c \<noteq> None)
              \<and> distinct (classes le)
              \<and> length (clf_predict_proba m
                    (transform sc (feature_row cols (features(opt \<mapsto> 0))))) = length (classes le)
              \<and> clf_predict m
                    (transform sc (feature_row cols (features(opt \<mapsto> 0)))) < length (classes le)
            \<longrightarrow> (\<exists>r. predict fadd self (features(opt := None)) = Inr r
                   \<and> predict fadd self (features(opt \<mapsto> 0)) = Inr r
                   \<and> features_used r = cols))"
proof -
  have fm: "first_missing cs (features(opt := None)) = first_missing cs (features(opt \<mapsto> 0))"
    for cs
    unfolding first_missing_def using assms by (intro find_cong) auto
  have row: "feature_row cs (features(opt := None)) = feature_row cs (features(opt \<mapsto> 0))"
    for cs
    by (simp add: feature_row_def)
  have "validated cs (features(opt := None)) = validated cs (features(opt \<mapsto> 0))"
    for cs
    by (simp only: validated_closed fm row)
  then have eq: "predict fadd self (features(opt := None)) = predict fadd self (features(opt \<mapsto> 0))"
    by (simp add: predict_validated split: option.splits)
  have ok: "\<exists>r. predict fadd self (features(opt \<mapsto> 0)) = Inr r \<and> features_used r = cols"
    if "model self = Some m" "scaler self = Some sc" "label_encoder self = Some le"
      "feature_columns self = Some cols"
      "\<forall>c\<in>set cols. c \<notin> set optional_params \<longrightarrow> features c \<noteq> None"
      "distinct (classes le)"
      "length (clf_predict_proba m
          (transform sc (feature_row cols (features(opt \<mapsto> 0))))) = length (classes le)"
      "clf_predict m (transform sc (feature_row cols (features(opt \<mapsto> 0)))) < length (classes le)"
  proof -
    have "first_missing cols (features(opt \<mapsto> 0)) = None"
      using that(5) by (auto simp: first_missing_None)
    then have "predict fadd self (features(opt \<mapsto> 0)) =
        Inr (merge_and_decide fadd
              (zip (classes le)
                 (clf_predict_proba m (transform sc (feature_row cols (features(opt \<mapsto> 0)))))) cols)"
      using that by (intro predict_ok) auto
    then show ?thesis
      by (simp add: merge_and_decide_def Let_def split: prod.splits)
  qed
  show ?thesis using eq row ok by auto
qed

theorem optional_default_zero_witness:
  "''koi_score'' \<in> set optional_params
   \<and> (\<exists>r. predict (+) (init_predictor demo_dir) (demo_features(''koi_score'' := None)) = Inr r
          \<and> predict (+) (init_predictor demo_dir) (demo_features(''koi_score'' \<mapsto> 0)) = Inr r
          \<and> features_used r = koi_feature_columns)"
proof -
  have o: "''koi_score'' \<in> set optional_params" by (simp add: optional_params_def)
  have present: "\<forall>c\<in>set koi_feature_columns. c \<notin> set optional_params \<longrightarrow> demo_features c \<noteq> None"
    by (simp add: koi_feature_columns_def optional_params_def demo_features_def)
  from optional_default_zero [OF o, of "(+)" "init_predictor demo_dir" demo_features
      koi_feature_columns demo_classifier demo_scaler demo_encoder] present o
  show ?thesis
    by (auto simp: demo_loaded demo_encoder_def demo_classifier_def)
qed

text \<open>
  Claim C8 (unready state). When one of the four artifact files is absent at load time,
  the new predictor has none of its four fields set, and \<^verbatim>\<open>predict\<close> on it raises the
  \<^verbatim>\<open>ValueError\<close> for a model that is not loaded, whatever the input. \<^verbatim>\<open>predict\<close> does not
  change the predictor, so this holds for every later call.
\<close>

theorem unready_predict_fails:
  assumes "exoplanet_classifier_pkl d = Absent \<or> feature_scaler_pkl d = Absent
           \<or> label_encoder_pkl d = Absent \<or> feature_names_txt d = Absent"
  shows "model (init_predictor d) = None \<and> scaler (init_predictor d) = None
         \<and> label_encoder (init_predictor d) = None \<and> feature_columns (init_predictor d) = None
         \<and> predict fadd (init_predictor d) features =
             Inl (ValueError ''Model not loaded. Please train the model first.'')"
  using assms by (simp add: init_predictor_def load_model_absent predict_def model_not_loaded_def)

theorem unready_predict_fails_witness:
  "feature_names_txt (demo_dir\<lparr>feature_names_txt := Absent\<rparr>) = Absent
   \<and> model (init_predictor (demo_dir\<lparr>feature_names_txt := Absent\<rparr>)) = None
   \<and> predict (+) (init_predictor (demo_dir\<lparr>feature_names_txt := Absent\<rparr>)) demo_features
       = Inl (ValueError ''Model not loaded. Please train the model first.'')"
  using unready_predict_fails [of "demo_dir\<lparr>feature_names_txt := Absent\<rparr>" "(+)" demo_features]
  by simp

text \<open>
  Claim C9 (unknown keys are ignored). Two inputs that agree on every persisted feature
  name give the same outcome of \<^verbatim>\<open>predict\<close>.
\<close>

theorem unknown_keys_ignored:
  assumes "feature_columns self = Some cols"
    and "\<forall>k\<in>set cols. features1 k = features2 k"
  shows "predict fadd self features1 = predict fadd self features2"
proof -
  have "first_missing cols features1 = first_missing cols features2"
    unfolding first_missing_def using assms(2) by (intro find_cong) auto
  moreover have "feature_row cols features1 = feature_row cols features2"
    using assms(2) by (simp add: feature_row_def)
  ultimately have "validated cols features1 = validated cols features2"
    by (simp only: validated_closed)
  then show ?thesis using assms(1) by (simp add: predict_validated split: option.splits)
qed

theorem unknown_keys_ignored_witness:
  "feature_columns (init_predictor demo_dir) = Some koi_feature_columns
   \<and> list_all (\<lambda>k. demo_features k = (demo_features(''session_id'' \<mapsto> 7)) k) koi_feature_columns
   \<and> predict (+) (init_predictor demo_dir) demo_features
     = predict (+) (init_predictor demo_dir) (demo_features(''session_id'' \<mapsto> 7))"
proof -
  have a: "feature_columns (init_predictor demo_dir) = Some koi_feature_columns"
    by (simp add: demo_loaded)
  have b: "\<forall>k\<in>set koi_feature_columns. demo_features k = (demo_features(''session_id'' \<mapsto> 7)) k"
    by (simp add: koi_feature_columns_def)
  from unknown_keys_ignored [OF a b] a b show ?thesis
    by (simp only: list_all_iff simp_thms)
qed

section \<open>Properties of the training pipeline\<close>

subsection \<open>The outlier loop\<close>

lemma outlier_step_columns: "columns (outlier_step env col df) = columns df"
  by (simp add: outlier_step_def Let_def split: option.splits)

lemma outlier_step_rows:
  "col \<in> set (columns df) \<Longrightarrow>
   rows (outlier_step env col df) = filter (in_iqr_range env col (rows df)) (rows df)"
  by (auto simp: outlier_step_def in_iqr_range_def iqr_range_def Let_def
      split: option.splits intro!: filter_cong)

lemma outlier_step_absent: "col \<notin> set (columns df) \<Longrightarrow> outlier_step env col df = df"
  by (simp add: outlier_step_def)

lemma remove_outliers_columns: "columns (remove_outliers env cols df) = columns df"
  by (induction cols arbitrary: df) (simp_all add: outlier_step_columns)

lemma remove_outliers_append:
  "remove_outliers env (xs @ ys) df = remove_outliers env ys (remove_outliers env xs df)"
  by (induction xs arbitrary: df) simp_all

lemma survivors_filter:
  "survivors env cols rs k =
     filter (\<lambda>r. \<forall>j<k. in_iqr_range env (cols ! j) (survivors env cols rs j) r) rs"
proof (induction k)
  case 0
  then show ?case by simp
next
  case (Suc k)
  have "survivors env cols rs (Suc k) =
      filter (in_iqr_range env (cols ! k) (survivors env cols rs k))
        (filter (\<lambda>r. \<forall>j<k. in_iqr_range env (cols ! j) (survivors env cols rs j) r) rs)"
    using Suc.IH by simp
  also have "\<dots> = filter (\<lambda>r. \<forall>j<Suc k. in_iqr_range env (cols ! j) (survivors env cols rs j) r) rs"
    by (auto simp: less_Suc_eq intro!: filter_cong)
  finally show ?case .
qed

lemma remove_outliers_take:
  assumes "set cols \<subseteq> set (columns df)"
  shows "k \<le> length cols \<Longrightarrow> rows (remove_outliers env (take k cols) df) = survivors env cols (rows df) k"
proof (induction k)
  case 0
  then show ?case by simp
next
  case (Suc k)
  then have k: "k < length cols" by simp
  then have mem: "cols ! k \<in> set (columns (remove_outliers env (take k cols) df))"
    using assms by (auto simp: remove_outliers_columns)
  have "remove_outliers env (take (Suc k) cols) df
      = outlier_step env (cols ! k) (remove_outliers env (take k cols) df)"
    using k by (simp add: take_Suc_conv_app_nth remove_outliers_append)
  then show ?case
    using Suc.IH k by (simp add: outlier_step_rows [OF mem])
qed

lemma outlier_step_length: "length (rows (outlier_step env col df)) \<le> length (rows df)"
  by (cases "col \<in> set (columns df)") (simp_all add: outlier_step_rows outlier_step_absent)

lemma remove_outliers_length: "length (rows (remove_outliers env cols df)) \<le> length (rows df)"
proof (induction cols arbitrary: df)
  case Nil
  then show ?case by simp
next
  case (Cons c cs)
  have "length (rows (remove_outliers env cs (outlier_step env c df))) \<le> length (rows (outlier_step env c df))"
    by (rule Cons.IH)
  also have "\<dots> \<le> length (rows df)" by (rule outlier_step_length)
  finally show ?case by simp
qed

lemma remove_outliers_subseq: "subseq (rows (remove_outliers env cols df)) (rows df)"
proof (induction cols arbitrary: df)
  case Nil
  then show ?case by simp
next
  case (Cons c cs)
  have "subseq (rows (outlier_step env c df)) (rows df)"
    by (cases "c \<in> set (columns df)") (simp_all add: outlier_step_rows outlier_step_absent)
  with Cons.IH [of "outlier_step env c df"] show ?case
    by (auto intro: subseq_order.trans)
qed

lemma outlier_step_fixed:
  assumes "col \<in> set (columns df)"
  shows "outlier_step env col df = df \<longleftrightarrow> (\<forall>r\<in>set (rows df). in_iqr_range env col (rows df) r)"
proof
  assume "outlier_step env col df = df"
  then have "filter (in_iqr_range env col (rows df)) (rows df) = rows df"
    using outlier_step_rows [OF assms, of env] by simp
  then show "\<forall>r\<in>set (rows df). in_iqr_range env col (rows df) r"
    by (simp add: filter_id_conv)
next
  assume "\<forall>r\<in>set (rows df). in_iqr_range env col (rows df) r"
  then have "rows (outlier_step env col df) = rows df"
    using outlier_step_rows [OF assms, of env] by (simp add: filter_id_conv)
  moreover have "columns (outlier_step env col df) = columns df"
    by (rule outlier_step_columns)
  ultimately show "outlier_step env col df = df"
    by (intro data_frame.equality) (simp_all add: outlier_step_def Let_def split: option.splits prod.splits)
qed

lemma outlier_step_same_length:
  assumes "length (rows (outlier_step env col df)) = length (rows df)"
  shows "outlier_step env col df = df"
proof (cases "col \<in> set (columns df)")
  case False
  then show ?thesis by (rule outlier_step_absent)
next
  case True
  have "length (filter (in_iqr_range env col (rows df)) (rows df)) = length (rows df)"
    using assms outlier_step_rows [OF True, of env] by simp
  then have "\<forall>r\<in>set (rows df). in_iqr_range env col (rows df) r"
    by (metis filter_id_conv length_filter_less less_irrefl_nat)
  then show ?thesis using outlier_step_fixed [OF True] by simp
qed

lemma remove_outliers_fixed:
  "set cols \<subseteq> set (columns df) \<Longrightarrow>
   remove_outliers env cols df = df \<longleftrightarrow>
     (\<forall>c\<in>set cols. \<forall>r\<in>set (rows df). in_iqr_range env c (rows df) r)"
proof (induction cols)
  case Nil
  then show ?case by simp
next
  case (Cons c cs)
  then have c: "c \<in> set (columns df)" and cs: "set cs \<subseteq> set (columns df)" by auto
  show ?case
  proof
    assume fp: "remove_outliers env (c # cs) df = df"
    have "length (rows df) = length (rows (remove_outliers env cs (outlier_step env c df)))"
      using fp by simp
    also have "\<dots> \<le> length (rows (outlier_step env c df))" by (rule remove_outliers_length)
    finally have "length (rows (outlier_step env c df)) = length (rows df)"
      using outlier_step_length [of env c df] by simp
    then have step: "outlier_step env c df = df" by (rule outlier_step_same_length)
    with fp have "remove_outliers env cs df = df" by simp
    with Cons.IH [OF cs] step outlier_step_fixed [OF c]
    show "\<forall>c'\<in>set (c # cs). \<forall>r\<in>set (rows df). in_iqr_range env c' (rows df) r" by simp
  next
    assume all: "\<forall>c'\<in>set (c # cs). \<forall>r\<in>set (rows df). in_iqr_range env c' (rows df) r"
    then have "outlier_step env c df = df" using outlier_step_fixed [OF c] by simp
    moreover have "remove_outliers env cs df = df" using all Cons.IH [OF cs] by simp
    ultimately show "remove_outliers env (c # cs) df = df" by simp
  qed
qed

lemma fill_optional_columns: "columns (fill_optional cols df) = columns df"
  by (induction cols arbitrary: df) simp_all

subsection \<open>The stages of load_and_preprocess_data\<close>

lemma load_and_preprocess_data_stages:
  assumes "target_column self \<in> set (columns df)"
    and "set (trainer_feature_columns self) \<subseteq> set (columns df)"
  shows "load_and_preprocess_data env self df =
     Inr (remove_outliers env (trainer_feature_columns self)
            (handle_missing_values (trainer_feature_columns self)
               (narrow_columns (trainer_feature_columns self) (target_column self)
                  (filter_dispositions df))))"
  using assms by (simp add: load_and_preprocess_data_def filter_dispositions_def Let_def)

lemma load_and_preprocess_data_columns:
  assumes "load_and_preprocess_data env self df = Inr out"
  shows "columns out = trainer_feature_columns self @ [target_column self]"
proof -
  have "columns (handle_missing_values cs d) = columns d" for cs d
    by (simp add: handle_missing_values_def Let_def fill_optional_columns)
  then show ?thesis using assms
    by (auto simp: load_and_preprocess_data_def Let_def remove_outliers_columns
        narrow_columns_def split: if_splits)
qed

subsection \<open>Evaluation on the sample tables\<close>

lemma num_sample_row [simp]:
  "num (sample_row p d s) ''koi_period'' = p"
  "num (sample_row p d s) ''koi_duration'' = Some d"
  "num (sample_row p d s) ''koi_score'' = s"
  "num (sample_row p d s) ''koi_depth'' = Some 0"
  "num (sample_row p d s) ''koi_prad'' = Some 0"
  "num (sample_row p d s) ''koi_teq'' = Some 0"
  "num (sample_row p d s) ''koi_insol'' = Some 0"
  "num (sample_row p d s) ''koi_model_snr'' = Some 0"
  "num (sample_row p d s) ''koi_steff'' = Some 0"
  "num (sample_row p d s) ''koi_srad'' = Some 0"
  "num (sample_row p d s) ''koi_impact'' = Some 0"
  "num (sample_row p d s) ''koi_slogg'' = Some 0"
  by (simp_all add: sample_row_def koi_feature_columns_def)

lemmas eval_frame = outlier_step_def exact_numerics_def linear_quantile_def column_values_def
  List.map_filter_simps
  koi_feature_columns_def Let_def

lemma skewed_first_pass:
  "remove_outliers exact_numerics koi_feature_columns skewed_table =
     skewed_table\<lparr>rows := [sample_row (Some 0) 0 (Some 0), sample_row (Some 0) 0 (Some 0),
                            sample_row (Some 0) 0 (Some 0), sample_row (Some 1) 0 (Some 0)]\<rparr>"
  by (simp add: skewed_table_def outlier_step_def exact_numerics_def linear_quantile_def column_values_def
      List.map_filter_simps koi_feature_columns_def Let_def)

lemma skewed_second_pass:
  "remove_outliers exact_numerics koi_feature_columns
     (skewed_table\<lparr>rows := [sample_row (Some 0) 0 (Some 0), sample_row (Some 0) 0 (Some 0),
                            sample_row (Some 0) 0 (Some 0), sample_row (Some 1) 0 (Some 0)]\<rparr>) =
     skewed_table\<lparr>rows := [sample_row (Some 0) 0 (Some 0), sample_row (Some 0) 0 (Some 0),
                            sample_row (Some 0) 0 (Some 0)]\<rparr>"
  by (simp add: skewed_table_def outlier_step_def exact_numerics_def linear_quantile_def column_values_def
      List.map_filter_simps koi_feature_columns_def Let_def)

lemma skewed_third_pass:
  "remove_outliers exact_numerics koi_feature_columns
     (skewed_table\<lparr>rows := [sample_row (Some 0) 0 (Some 0), sample_row (Some 0) 0 (Some 0),
                            sample_row (Some 0) 0 (Some 0)]\<rparr>) =
     skewed_table\<lparr>rows := [sample_row (Some 0) 0 (Some 0), sample_row (Some 0) 0 (Some 0),
                            sample_row (Some 0) 0 (Some 0)]\<rparr>"
  by (simp add: skewed_table_def eval_frame)

lemma paired_pass:
  "remove_outliers exact_numerics koi_feature_columns paired_table =
     paired_table\<lparr>rows := [sample_row (Some 0) 0 (Some 0), sample_row (Some 0) 0 (Some 0),
                            sample_row (Some 0) 0 (Some 0)]\<rparr>"
  by (simp add: paired_table_def eval_frame)

lemma paired_unfiltered:
  "filter (\<lambda>r. list_all (\<lambda>c. in_iqr_range exact_numerics c (rows paired_table) r) koi_feature_columns)
     (rows paired_table) =
     [sample_row (Some 0) 0 (Some 0), sample_row (Some 0) 0 (Some 0),
      sample_row (Some 0) 0 (Some 0), sample_row (Some 1) 1 (Some 0)]"
  by (simp add: paired_table_def in_iqr_range_def iqr_range_def exact_numerics_def
      linear_quantile_def column_values_def List.map_filter_simps koi_feature_columns_def Let_def)

subsection \<open>The imputation loop\<close>





lemma select_columns_present:
  "\<forall>c\<in>set cols. features c \<noteq> None \<Longrightarrow> select_columns cols features = Inr (feature_row cols features)"
  by (induction cols) (auto simp: feature_row_def)

subsection \<open>The claims about the training pipeline\<close>

text \<open>
  Claim C4 (outlier removal is sequential). The columns are filtered in the order of the
  list. After the first \<open>k\<close> columns the frame holds the rows \<open>survivors env cols rs k\<close>;
  the filter of column \<open>k\<close> takes Q1, Q3 and IQR over these rows only and drops every
  row whose value lies outside \<open>[Q1 - 1.5 IQR, Q3 + 1.5 IQR]\<close>, before the next column
  is looked at. So a row is in the result exactly when, for every column, its value lies
  in the range computed over the rows that the columns before have left. The quartiles
  and the two bounds are the floats that the operations of \<open>env\<close> give, whatever these
  operations are.
\<close>

theorem outliers_removed_sequentially:
  assumes "set cols \<subseteq> set (columns df)"
  shows "(\<forall>k\<le>length cols.
            rows (remove_outliers env (take k cols) df) = survivors env cols (rows df) k)
         \<and> rows (remove_outliers env cols df) =
             filter (\<lambda>r. \<forall>k<length cols.
                       in_iqr_range env (cols ! k) (rows (remove_outliers env (take k cols) df)) r)
               (rows df)
         \<and> columns (remove_outliers env cols df) = columns df"
proof -
  have a: "\<forall>k\<le>length cols. rows (remove_outliers env (take k cols) df) = survivors env cols (rows df) k"
    using remove_outliers_take [OF assms] by blast
  have "rows (remove_outliers env cols df) = survivors env cols (rows df) (length cols)"
    using a by force
  also have "\<dots> = filter (\<lambda>r. \<forall>j<length cols.
      in_iqr_range env (cols ! j) (survivors env cols (rows df) j) r) (rows df)"
    by (rule survivors_filter)
  also have "\<dots> = filter (\<lambda>r. \<forall>k<length cols.
      in_iqr_range env (cols ! k) (rows (remove_outliers env (take k cols) df)) r) (rows df)"
    using a by (auto intro!: filter_cong)
  finally show ?thesis using a by (simp add: remove_outliers_columns)
qed

text \<open>
  On the table with two equal columns the loop leaves three rows, where the ranges of
  the unfiltered table would leave four. The values, quartiles and bounds of this table
  are binary fractions, so exact arithmetic is the arithmetic of the machine here.
\<close>

theorem outliers_removed_sequentially_witness:
  "set koi_feature_columns \<subseteq> set (columns paired_table)
   \<and> rows (remove_outliers exact_numerics koi_feature_columns paired_table) =
       filter (\<lambda>r. \<forall>k<length koi_feature_columns.
                 in_iqr_range exact_numerics (koi_feature_columns ! k)
                   (rows (remove_outliers exact_numerics (take k koi_feature_columns) paired_table)) r)
         (rows paired_table)
   \<and> length (rows (remove_outliers exact_numerics koi_feature_columns paired_table)) = 3
   \<and> length (filter (\<lambda>r. list_all (\<lambda>c. in_iqr_range exact_numerics c (rows paired_table) r) koi_feature_columns)
               (rows paired_table)) = 4"
proof -
  have a: "set koi_feature_columns \<subseteq> set (columns paired_table)"
    by (auto simp: paired_table_def)
  have b: "rows (remove_outliers exact_numerics koi_feature_columns paired_table) =
       filter (\<lambda>r. \<forall>k<length koi_feature_columns.
                 in_iqr_range exact_numerics (koi_feature_columns ! k)
                   (rows (remove_outliers exact_numerics (take k koi_feature_columns) paired_table)) r)
         (rows paired_table)"
    using outliers_removed_sequentially [OF a] by blast
  have c: "length (rows (remove_outliers exact_numerics koi_feature_columns paired_table)) = 3"
    by (simp add: paired_pass)
  have d: "length (filter (\<lambda>r. list_all (\<lambda>c. in_iqr_range exact_numerics c (rows paired_table) r)
      koi_feature_columns) (rows paired_table)) = 4"
    by (simp add: paired_unfiltered)
  from a b c d show ?thesis by blast
qed



text \<open>
  Claim C6 (idempotence of the outlier removal) fails: on the table with the values
  0, 0, 0, 1 and 3 the first pass leaves four rows and a second pass over them leaves
  three. The quartiles 0, 1 and 0.25 and the bounds -1.5, 2.5, -0.375 and 0.625 of this
  table are binary fractions, so exact arithmetic is the arithmetic of the machine here.
\<close>

theorem outlier_removal_idempotent_counterexample:
  "length (rows (remove_outliers exact_numerics koi_feature_columns skewed_table)) = 4
   \<and> length (rows (remove_outliers exact_numerics koi_feature_columns
                    (remove_outliers exact_numerics koi_feature_columns skewed_table))) = 3"
  by (simp add: skewed_first_pass skewed_second_pass)

text \<open>
  Claim C6 as amended. A second pass returns a sublist of the output of the first, and
  it removes no row exactly when every row of that output lies, in every column, within
  the range that the operations of \<open>env\<close> give over that output.
\<close>

theorem second_pass_fixed_point:
  assumes "set cols \<subseteq> set (columns df)"
  shows "subseq (rows (remove_outliers env cols (remove_outliers env cols df)))
           (rows (remove_outliers env cols df))
         \<and> (remove_outliers env cols (remove_outliers env cols df) = remove_outliers env cols df
              \<longleftrightarrow> (\<forall>c\<in>set cols. \<forall>r\<in>set (rows (remove_outliers env cols df)).
                     in_iqr_range env c (rows (remove_outliers env cols df)) r))"
proof -
  have "set cols \<subseteq> set (columns (remove_outliers env cols df))"
    using assms by (simp add: remove_outliers_columns)
  then show ?thesis
    using remove_outliers_fixed [of cols "remove_outliers env cols df"]
    by (simp add: remove_outliers_subseq)
qed

theorem second_pass_fixed_point_witness:
  "set koi_feature_columns \<subseteq> set (columns (remove_outliers exact_numerics koi_feature_columns skewed_table))
   \<and> subseq
       (rows (remove_outliers exact_numerics koi_feature_columns
          (remove_outliers exact_numerics koi_feature_columns (remove_outliers exact_numerics koi_feature_columns skewed_table))))
       (rows (remove_outliers exact_numerics koi_feature_columns (remove_outliers exact_numerics koi_feature_columns skewed_table)))
   \<and> list_all (\<lambda>c. list_all
         (in_iqr_range exact_numerics c
           (rows (remove_outliers exact_numerics koi_feature_columns (remove_outliers exact_numerics koi_feature_columns skewed_table))))
         (rows (remove_outliers exact_numerics koi_feature_columns (remove_outliers exact_numerics koi_feature_columns skewed_table))))
       koi_feature_columns"
proof -
  let ?once = "remove_outliers exact_numerics koi_feature_columns skewed_table"
  have a: "set koi_feature_columns \<subseteq> set (columns ?once)"
    by (auto simp: remove_outliers_columns skewed_table_def)
  have fp: "remove_outliers exact_numerics koi_feature_columns (remove_outliers exact_numerics koi_feature_columns ?once)
      = remove_outliers exact_numerics koi_feature_columns ?once"
    by (simp add: skewed_first_pass skewed_second_pass skewed_third_pass)
  from second_pass_fixed_point [OF a] fp a show ?thesis
    by (simp add: list_all_iff)
qed

text \<open>
  Claim C10 (the predict of the training module never merges). With all feature columns
  present, a fitted scaler and a label encoding over the three dispositions, and a
  classifier whose predicted code is a position of highest probability in its own row of
  probabilities (as scikit-learn's classifiers are), \<^verbatim>\<open>ExoplanetClassifier.predict\<close> returns
  the raw disposition of highest probability, one confidence entry per class, three in
  all, and the highest raw probability as \<^verbatim>\<open>max_confidence\<close>; the verdict is never the
  merged \<^verbatim>\<open>CONFIRMED/CANDIDATE\<close>.
\<close>

theorem classifier_predict_is_raw:
  assumes "trainer_model self = Some m" and "trainer_scaler self = Some sc"
    and "trainer_label_encoder self = Some le"
    and "\<forall>c\<in>set (trainer_feature_columns self). features c \<noteq> None"
    and "distinct (classes le)"
    and "set (classes le) = {''CONFIRMED'', ''CANDIDATE'', ''FALSE POSITIVE''}"
    and "x = transform sc (feature_row (trainer_feature_columns self) features)"
    and "length (clf_predict_proba m x) = length (classes le)"
    and "clf_predict m x < length (classes le)"
    and "clf_predict_proba m x ! clf_predict m x = Max (set (clf_predict_proba m x))"
  shows "\<exists>r. classifier_predict self features = Inr r
           \<and> raw_prediction r = classes le ! clf_predict m x
           \<and> raw_prediction r \<in> {''CONFIRMED'', ''CANDIDATE'', ''FALSE POSITIVE''}
           \<and> raw_prediction r \<noteq> ''CONFIRMED/CANDIDATE''
           \<and> class_probability le (clf_predict_proba m x) (raw_prediction r)
               = Max (set (clf_predict_proba m x))
           \<and> raw_confidence_scores r = zip (classes le) (clf_predict_proba m x)
           \<and> length (raw_confidence_scores r) = 3
           \<and> raw_max_confidence r = Max (set (clf_predict_proba m x))"
proof -
  let ?probs = "clf_predict_proba m x"
  let ?y = "clf_predict m x"
  have len3: "length (classes le) = 3"
  proof -
    have "length (classes le) = card (set (classes le))"
      using assms(5) by (simp add: distinct_card)
    also have "\<dots> = 3" unfolding assms(6) by simp
    finally show ?thesis .
  qed
  have sel: "select_columns (trainer_feature_columns self) features
      = Inr (feature_row (trainer_feature_columns self) features)"
    using assms(4) by (rule select_columns_present)
  have scores: "collect_scores (classes le) 0 ?probs [] = Inr ([] @ zip (classes le) (drop 0 ?probs))"
    using assms(5,8) by (intro collect_scores_distinct) auto
  have ne: "?probs \<noteq> []" using assms(8) len3 by auto
  then obtain p ps where pps: "?probs = p # ps" by (cases ?probs) auto
  have mx: "fold max ps p = Max (set ?probs)"
    unfolding pps by (rule Max.set_eq_fold [symmetric])
  have label: "classes le ! ?y \<in> set (classes le)"
    using assms(9) by simp
  have prob: "class_probability le ?probs (classes le ! ?y) = ?probs ! ?y"
    using assms(5,8,9) by (simp add: class_probability_def dict_get_def map_of_zip_nth)
  have res: "classifier_predict self features =
      Inr \<lparr>raw_prediction = classes le ! ?y,
           raw_confidence_scores = zip (classes le) ?probs,
           raw_max_confidence = Max (set ?probs)\<rparr>"
    using assms(1-3,9) sel scores mx pps assms(7)
    by (simp add: classifier_predict_def inverse_transform_def Let_def)
  have "classes le ! ?y \<noteq> ''CONFIRMED/CANDIDATE''"
    using label unfolding assms(6) by auto
  with res label prob assms(10) len3 assms(8) show ?thesis
    unfolding assms(6) by simp
qed

theorem classifier_predict_is_raw_witness:
  "classifier_predict trained_classifier full_features =
     Inr \<lparr>raw_prediction = ''CANDIDATE'',
          raw_confidence_scores = [(''CANDIDATE'', 2/5), (''CONFIRMED'', 7/20), (''FALSE POSITIVE'', 1/4)],
          raw_max_confidence = 2/5\<rparr>
   \<and> (\<exists>r. predict (+) (init_predictor demo_dir) full_features = Inr r)"
proof -
  let ?m = "\<lparr>clf_predict = (\<lambda>x. 0), clf_predict_proba = (\<lambda>x. [2/5, 7/20, 1/4])\<rparr> :: classifier"
  have present: "\<forall>c\<in>set (trainer_feature_columns trained_classifier). full_features c \<noteq> None"
    by (simp add: trained_classifier_def new_classifier_def koi_feature_columns_def full_features_def)
  from classifier_predict_is_raw [of trained_classifier ?m demo_scaler demo_encoder full_features
      "transform demo_scaler (feature_row (trainer_feature_columns trained_classifier) full_features)",
      OF _ _ _ present]
  obtain r where r: "classifier_predict trained_classifier full_features = Inr r"
    "raw_prediction r = ''CANDIDATE''"
    "raw_confidence_scores r = [(''CANDIDATE'', 2/5), (''CONFIRMED'', 7/20), (''FALSE POSITIVE'', 1/4)]"
    "raw_max_confidence r = 2/5"
    by (auto simp: trained_classifier_def new_classifier_def demo_encoder_def)
  then have "r = \<lparr>raw_prediction = ''CANDIDATE'',
          raw_confidence_scores = [(''CANDIDATE'', 2/5), (''CONFIRMED'', 7/20), (''FALSE POSITIVE'', 1/4)],
          raw_max_confidence = 2/5\<rparr>"
    by (cases r) simp
  moreover have "\<exists>r. predict (+) (init_predictor demo_dir) full_features = Inr r"
    by (simp add: demo_loaded predict_def koi_feature_columns_def full_features_def
      optional_params_def demo_scaler_def demo_classifier_def demo_encoder_def
      inverse_transform_def)
  ultimately show ?thesis using r(1) by simp
qed

end
